theory Spec2Isabelle
  imports
    Complex_Main
    "HOL-Library.AList"
    "HOL-Library.Char_ord"
    "HOL-Library.List_Lexorder"
    "HOL-Library.Multiset"
begin

section \<open>Gym Program Tracker: the session store and its analytics\<close>

text \<open>
  The repository holds two versions of one React component: the calendar version
  (component \<^verbatim>\<open>GymProgramTracker\<close>) and the earlier \<^verbatim>\<open>src/App.jsx\<close> (component
  \<^verbatim>\<open>App\<close>), which has no calendar. The functions modelled here are the same in both,
  but for the absent starting values of the catalog and for the upsert inside
  \<^verbatim>\<open>saveSession\<close>. The definitions are translated from the calendar version; the
  upsert of \<^verbatim>\<open>src/App.jsx\<close> is translated next to it, under a name ending in
  \<open>_App\<close>.
\<close>

subsection \<open>JavaScript values\<close>

text \<open>
  A JavaScript number is \<open>NaN\<close>, an infinity or a finite value. Finite values are
  taken as exact rationals: the rounding of IEEE doubles is not modelled.
\<close>

datatype jsnum = NaN | NInf | Fin rat | PInf

text \<open>
  The values a numeric form field or a stored numeric field can hold: a missing property
  reads as \<open>Undefined\<close>; text inputs hold strings; defaults and saved values are
  numbers.
\<close>

datatype jsval = Undefined | Null | Str string | Num jsnum

subsection \<open>String.prototype.trim and the conversion Number(value)\<close>

text \<open>
  Strings are ASCII. \<open>trim\<close> removes the white space and line terminators of both
  ends. \<open>StringToNumber\<close> follows the grammar of ECMAScript's StringNumericLiteral:
  white space around an optional literal, which is a signed decimal literal (digits with
  an optional fraction and exponent, or \<^verbatim>\<open>Infinity\<close>) or an unsigned literal in base
  16, 8 or 2; the empty literal reads as 0 and anything else as \<open>NaN\<close>.
\<close>

definition isWhiteSpace :: "char \<Rightarrow> bool" where
  "isWhiteSpace c = (c \<in> set [CHR 0x09, CHR 0x0A, CHR 0x0B, CHR 0x0C, CHR 0x0D, CHR '' ''])"

definition trim :: "string \<Rightarrow> string" where
  "trim s = rev (dropWhile isWhiteSpace (rev (dropWhile isWhiteSpace s)))"

definition digitValue :: "char \<Rightarrow> nat" where
  "digitValue c =
     (if CHR ''0'' \<le> c \<and> c \<le> CHR ''9'' then of_char c - 48
      else if CHR ''a'' \<le> c \<and> c \<le> CHR ''f'' then of_char c - 87
      else if CHR ''A'' \<le> c \<and> c \<le> CHR ''F'' then of_char c - 55
      else 16)"

definition isDigitOf :: "nat \<Rightarrow> char \<Rightarrow> bool" where
  "isDigitOf radix c = (digitValue c < radix)"

definition digitsValue :: "nat \<Rightarrow> string \<Rightarrow> nat" where
  "digitsValue radix s = foldl (\<lambda>a c. radix * a + digitValue c) 0 s"

definition radixLiteral :: "nat \<Rightarrow> string \<Rightarrow> jsnum" where
  "radixLiteral radix s =
     (if s \<noteq> [] \<and> list_all (isDigitOf radix) s then Fin (of_nat (digitsValue radix s)) else NaN)"

definition exponentPart :: "string \<Rightarrow> int option" where
  "exponentPart s =
     (case s of
        [] \<Rightarrow> Some 0
      | c # t \<Rightarrow>
          if c = CHR ''e'' \<or> c = CHR ''E'' then
            (let (neg, ds) =
                   (case t of
                      [] \<Rightarrow> (False, [])
                    | d # u \<Rightarrow> if d = CHR ''-'' then (True, u)
                               else if d = CHR ''+'' then (False, u) else (False, t))
             in if ds \<noteq> [] \<and> list_all (isDigitOf 10) ds
                then Some (if neg then - int (digitsValue 10 ds) else int (digitsValue 10 ds))
                else None)
          else None)"

definition scale10 :: "rat \<Rightarrow> int \<Rightarrow> rat" where
  "scale10 m e = (if e \<ge> 0 then m * 10 ^ nat e else m / 10 ^ nat (- e))"

definition StrUnsignedDecimalLiteral :: "string \<Rightarrow> jsnum" where
  "StrUnsignedDecimalLiteral s =
     (if s = ''Infinity'' then PInf
      else
        let ip = takeWhile (isDigitOf 10) s;
            r1 = dropWhile (isDigitOf 10) s;
            (fp, r2) =
              (case r1 of
                 [] \<Rightarrow> ([], [])
               | c # t \<Rightarrow> if c = CHR ''.''
                          then (takeWhile (isDigitOf 10) t, dropWhile (isDigitOf 10) t)
                          else ([], r1))
        in if ip = [] \<and> fp = [] then NaN
           else
             (case exponentPart r2 of
                None \<Rightarrow> NaN
              | Some e \<Rightarrow>
                  Fin (scale10 (of_nat (digitsValue 10 ip)
                         + of_nat (digitsValue 10 fp) / 10 ^ length fp) e)))"

definition negate :: "jsnum \<Rightarrow> jsnum" where
  "negate n = (case n of NaN \<Rightarrow> NaN | NInf \<Rightarrow> PInf | PInf \<Rightarrow> NInf | Fin q \<Rightarrow> Fin (- q))"

definition StrNumericLiteral :: "string \<Rightarrow> jsnum" where
  "StrNumericLiteral s =
     (case s of
        [] \<Rightarrow> NaN
      | c # t \<Rightarrow>
          if c = CHR ''-'' then negate (StrUnsignedDecimalLiteral t)
          else if c = CHR ''+'' then StrUnsignedDecimalLiteral t
          else if c = CHR ''0'' \<and> t \<noteq> [] \<and> hd t \<in> set ''xX'' then radixLiteral 16 (tl t)
          else if c = CHR ''0'' \<and> t \<noteq> [] \<and> hd t \<in> set ''oO'' then radixLiteral 8 (tl t)
          else if c = CHR ''0'' \<and> t \<noteq> [] \<and> hd t \<in> set ''bB'' then radixLiteral 2 (tl t)
          else StrUnsignedDecimalLiteral s)"

definition StringToNumber :: "string \<Rightarrow> jsnum" where
  "StringToNumber s = (let t = trim s in if t = [] then Fin 0 else StrNumericLiteral t)"

definition Number :: "jsval \<Rightarrow> jsnum" where
  "Number v =
     (case v of Undefined \<Rightarrow> NaN | Null \<Rightarrow> Fin 0 | Str s \<Rightarrow> StringToNumber s | Num n \<Rightarrow> n)"

definition clampNumber :: "jsval \<Rightarrow> jsval" where
  "clampNumber v =
     (if v = Str '''' \<or> v = Null \<or> v = Undefined then Str ''''
      else let n = Number v in if n = NaN then Str '''' else Num n)"

subsection \<open>Data model\<close>

record entry =
  weight :: jsval
  reps :: jsval
  sets :: jsval

record cardio_rec =
  cardio_type :: string
  minutes :: jsval

text \<open>
  A session object. \<open>entries\<close> is a JavaScript object used as a dictionary from
  exercise id to entry: an association list in property order, read with \<open>map_of\<close>.
  A session without an \<open>entries\<close> property behaves, in every reader below, as one
  with no entry, and is represented by the empty list.
\<close>

record session =
  session_id :: string
  date :: string
  dayKey :: string
  dayName :: string
  cardio :: cardio_rec
  notes_text :: string
  entries :: "(string \<times> entry) list"
  createdAt :: string

subsection \<open>Array.prototype.findIndex\<close>

text \<open>The index of the first element satisfying the predicate, or \<open>-1\<close>.\<close>

fun findIndexFrom :: "('a \<Rightarrow> bool) \<Rightarrow> 'a list \<Rightarrow> nat \<Rightarrow> int" where
  "findIndexFrom P [] k = - 1"
| "findIndexFrom P (x # xs) k = (if P x then int k else findIndexFrom P xs (Suc k))"

definition findIndex :: "('a \<Rightarrow> bool) \<Rightarrow> 'a list \<Rightarrow> int" where
  "findIndex P xs = findIndexFrom P xs 0"

subsection \<open>Session upsert\<close>

text \<open>
  The updater that \<^verbatim>\<open>saveSession\<close> passes to \<^verbatim>\<open>setSessions\<close>:
  \<^verbatim>\<open>
    const idx = prev.findIndex((s) => s.date === date && s.dayKey === dayKey);
    if (idx >= 0) { const copy = [...prev]; copy[idx] = payload; return copy; }
    // Also replace if same date but different dayKey, because calendar is per-day
    const idxDateOnly = prev.findIndex((s) => s.date === date);
    if (idxDateOnly >= 0) { const copy = [...prev]; copy[idxDateOnly] = payload; return copy; }
    return [...prev, payload];
  \<close>
  \<open>date'\<close> and \<open>dayKey'\<close> are the form's date and day key, which are also the
  payload's.
\<close>

definition upsertSession ::
  "string \<Rightarrow> string \<Rightarrow> session \<Rightarrow> session list \<Rightarrow> session list" where
  "upsertSession date' dayKey' payload prev =
     (let idx = findIndex (\<lambda>s. date s = date' \<and> dayKey s = dayKey') prev in
      if idx \<ge> 0 then prev[nat idx := payload]
      else
        let idxDateOnly = findIndex (\<lambda>s. date s = date') prev in
        if idxDateOnly \<ge> 0 then prev[nat idxDateOnly := payload]
        else prev @ [payload])"

text \<open>The upsert of a candidate session \<open>s\<close> into a store.\<close>

definition upsert :: "session list \<Rightarrow> session \<Rightarrow> session list" where
  "upsert store s = upsertSession (date s) (dayKey s) s store"

text \<open>
  The updater of \<^verbatim>\<open>src/App.jsx\<close>, which has no calendar and no date-only step:
  \<^verbatim>\<open>
    const idx = prev.findIndex((s) => s.date === date && s.dayKey === dayKey);
    if (idx >= 0) { const copy = [...prev]; copy[idx] = payload; return copy; }
    return [...prev, payload];
  \<close>
\<close>

definition upsertSession_App ::
  "string \<Rightarrow> string \<Rightarrow> session \<Rightarrow> session list \<Rightarrow> session list" where
  "upsertSession_App date' dayKey' payload prev =
     (let idx = findIndex (\<lambda>s. date s = date' \<and> dayKey s = dayKey') prev in
      if idx \<ge> 0 then prev[nat idx := payload]
      else prev @ [payload])"

definition upsert_App :: "session list \<Rightarrow> session \<Rightarrow> session list" where
  "upsert_App store s = upsertSession_App (date s) (dayKey s) s store"

text \<open>A sequence of upserts, applied left to right.\<close>

definition upserts :: "session list \<Rightarrow> session list \<Rightarrow> session list" where
  "upserts store ss = foldl upsert store ss"

text \<open>The store's uniqueness invariant: no two sessions share a date.\<close>

definition unique_dates :: "session list \<Rightarrow> bool" where
  "unique_dates store = distinct (map date store)"

text \<open>
  \<open>first_at P xs i\<close>: position \<open>i\<close> holds the first element of \<open>xs\<close> that
  satisfies \<open>P\<close>.
\<close>

definition first_at :: "('a \<Rightarrow> bool) \<Rightarrow> 'a list \<Rightarrow> nat \<Rightarrow> bool" where
  "first_at P xs i = (i < length xs \<and> P (xs ! i) \<and> list_all (\<lambda>x. \<not> P x) (take i xs))"

subsection \<open>The program catalog\<close>

text \<open>
  \<^verbatim>\<open>PROGRAM.days\<close>: for each day key its title, its cardio and its exercises. The
  starting value of an exercise is a number on day 1 and \<^verbatim>\<open>null\<close> on the other days
  (\<^verbatim>\<open>src/App.jsx\<close> writes the empty string there, which seeds the same defaults). A
  day key outside the catalog reads \<^verbatim>\<open>undefined\<close>, \<open>None\<close> of \<open>map_of\<close>.
\<close>

record exercise =
  ex_id :: string
  ex_name :: string
  ex_unit :: string
  start :: jsval

record day_rec =
  title :: string
  day_cardio_type :: string
  minutesDefault :: rat
  exercises :: "exercise list"

definition PROGRAM_days :: "(string \<times> day_rec) list" where
  "PROGRAM_days =
    [(''d1'',
      \<lparr>title = ''Day 1 - Shoulders (Heavy) + Push + Abs'',
       day_cardio_type = ''Incline walk'', minutesDefault = 15,
       exercises =
        [\<lparr>ex_id = ''shoulder_press'', ex_name = ''Shoulder Press'', ex_unit = ''kg'', start = Num (Fin 35)\<rparr>,
         \<lparr>ex_id = ''lat_raise_machine'', ex_name = ''Lateral Raise Machine'', ex_unit = ''kg'', start = Num (Fin 20)\<rparr>,
         \<lparr>ex_id = ''incline_db_press'', ex_name = ''Incline DB Press'', ex_unit = ''kg'', start = Num (Fin (45 / 2))\<rparr>,
         \<lparr>ex_id = ''rear_delt_fly_cable'', ex_name = ''Rear Delt Fly (cable)'', ex_unit = ''kg'', start = Num (Fin 15)\<rparr>,
         \<lparr>ex_id = ''triceps_pushdown'', ex_name = ''Triceps Pushdown'', ex_unit = ''kg'', start = Num (Fin 40)\<rparr>,
         \<lparr>ex_id = ''ab_crunch_machine'', ex_name = ''Ab Crunch Machine'', ex_unit = ''kg'', start = Num (Fin 40)\<rparr>]\<rparr>),
     (''d2'',
      \<lparr>title = ''Day 2 - Light Lower + Stairs + Abs'',
       day_cardio_type = ''Stair machine'', minutesDefault = 20,
       exercises =
        [\<lparr>ex_id = ''goblet_squat'', ex_name = ''Goblet Squat'', ex_unit = ''kg'', start = Null\<rparr>,
         \<lparr>ex_id = ''romanian_deadlift'', ex_name = ''Romanian Deadlift'', ex_unit = ''kg'', start = Null\<rparr>,
         \<lparr>ex_id = ''walking_lunges'', ex_name = ''Walking Lunges'', ex_unit = ''kg'', start = Null\<rparr>,
         \<lparr>ex_id = ''standing_calf_raise'', ex_name = ''Standing Calf Raise'', ex_unit = ''kg'', start = Null\<rparr>,
         \<lparr>ex_id = ''ab_crunch_machine'', ex_name = ''Ab Crunch Machine'', ex_unit = ''kg'', start = Null\<rparr>]\<rparr>),
     (''d3'',
      \<lparr>title = ''Day 3 - Shoulders (Volume) + Pull + Abs'',
       day_cardio_type = ''Incline walk'', minutesDefault = 15,
       exercises =
        [\<lparr>ex_id = ''upright_cable_row'', ex_name = ''Upright Cable Row (wide grip)'', ex_unit = ''kg'', start = Null\<rparr>,
         \<lparr>ex_id = ''lat_pulldown'', ex_name = ''Lat Pulldown'', ex_unit = ''kg'', start = Null\<rparr>,
         \<lparr>ex_id = ''face_pull'', ex_name = ''Face Pull'', ex_unit = ''kg'', start = Null\<rparr>,
         \<lparr>ex_id = ''cable_lateral_raise'', ex_name = ''Cable Lateral Raise'', ex_unit = ''kg'', start = Null\<rparr>,
         \<lparr>ex_id = ''triceps_pushdown'', ex_name = ''Triceps Pushdown'', ex_unit = ''kg'', start = Null\<rparr>,
         \<lparr>ex_id = ''ab_crunch_machine'', ex_name = ''Ab Crunch Machine'', ex_unit = ''kg'', start = Null\<rparr>]\<rparr>),
     (''d4'',
      \<lparr>title = ''Day 4 - Upper Accessories + Conditioning'',
       day_cardio_type = ''Stairs or incline walk'', minutesDefault = 15,
       exercises =
        [\<lparr>ex_id = ''arnold_press'', ex_name = ''Arnold Press'', ex_unit = ''kg'', start = Null\<rparr>,
         \<lparr>ex_id = ''rear_delt_fly'', ex_name = ''Rear Delt Fly'', ex_unit = ''kg'', start = Null\<rparr>,
         \<lparr>ex_id = ''biceps_curl'', ex_name = ''Biceps Curl'', ex_unit = ''kg'', start = Null\<rparr>,
         \<lparr>ex_id = ''hammer_curl'', ex_name = ''Hammer Curl'', ex_unit = ''kg'', start = Null\<rparr>]\<rparr>)]"

subsection \<open>Day change defaults\<close>

text \<open>
  The effect that runs when the day key changes:
  \<^verbatim>\<open>
    const day = PROGRAM.days[dayKey];
    setCardioMinutes(day.cardio.minutesDefault);
    const nextEntries = {};
    for (const ex of day.exercises) {
      // Pick last logged value for this exercise if available; else use start value
      const last = [...sessions]
        .reverse()
        .find((s) => s.entries && s.entries[ex.id] && s.entries[ex.id].weight !== "");
      const defaultWeight = last ? last.entries[ex.id].weight : ex.start;
      nextEntries[ex.id] = { weight: defaultWeight ?? "", reps: "", sets: "" };
    }
    setEntries(nextEntries);
  \<close>
  Its result is the pair of the new cardio minutes and the new entries; for a day key
  outside the catalog it throws a \<^verbatim>\<open>TypeError\<close>, which is \<open>None\<close>.
  \<open>nullish a b\<close> is \<^verbatim>\<open>a ?? b\<close>.
\<close>

definition nullish :: "jsval \<Rightarrow> jsval \<Rightarrow> jsval" where
  "nullish a b = (if a = Null \<or> a = Undefined then b else a)"

definition hasLoggedWeight :: "string \<Rightarrow> session \<Rightarrow> bool" where
  "hasLoggedWeight exId s =
     (case map_of (entries s) exId of None \<Rightarrow> False | Some e \<Rightarrow> weight e \<noteq> Str '''')"

definition lastLogged :: "session list \<Rightarrow> string \<Rightarrow> session option" where
  "lastLogged sessions exId = List.find (hasLoggedWeight exId) (rev sessions)"

text \<open>\<^verbatim>\<open>s.entries[exId].weight\<close> of a session that has the entry; the find above returns
  no other session.\<close>

definition entryWeight :: "session \<Rightarrow> string \<Rightarrow> jsval" where
  "entryWeight s exId = (case map_of (entries s) exId of None \<Rightarrow> Undefined | Some e \<Rightarrow> weight e)"

definition defaultWeight :: "session list \<Rightarrow> exercise \<Rightarrow> jsval" where
  "defaultWeight sessions ex =
     (case lastLogged sessions (ex_id ex) of
        Some found \<Rightarrow> entryWeight found (ex_id ex)
      | None \<Rightarrow> start ex)"

definition seedEntry :: "session list \<Rightarrow> exercise \<Rightarrow> entry" where
  "seedEntry sessions ex =
     \<lparr>weight = nullish (defaultWeight sessions ex) (Str ''''), reps = Str '''', sets = Str ''''\<rparr>"

definition nextEntries :: "session list \<Rightarrow> exercise list \<Rightarrow> (string \<times> entry) list" where
  "nextEntries sessions exs =
     foldl (\<lambda>acc ex. AList.update (ex_id ex) (seedEntry sessions ex) acc) [] exs"

definition dayChangeDefaults ::
  "session list \<Rightarrow> string \<Rightarrow> (jsval \<times> (string \<times> entry) list) option" where
  "dayChangeDefaults sessions dayKey' =
     (case map_of PROGRAM_days dayKey' of
        None \<Rightarrow> None
      | Some day \<Rightarrow> Some (Num (Fin (minutesDefault day)), nextEntries sessions (exercises day)))"

subsection \<open>saveSession\<close>

text \<open>
  The component's state, as far as \<^verbatim>\<open>saveSession\<close> reads and writes it. A form field
  holds the string typed into it, or the number or string that was seeded or loaded.
\<close>

record app_state =
  tab :: string
  sessions :: "session list"
  formDate :: string
  formDayKey :: string
  formNotes :: string
  cardioMinutes :: jsval
  formEntries :: "(string \<times> entry) list"

text \<open>
  \<^verbatim>\<open>
  function saveSession() {
    const day = PROGRAM.days[dayKey];
    const cleanEntries = {};
    for (const ex of day.exercises) {
      const e = entries[ex.id] ?? { weight: "", reps: "", sets: "" };
      cleanEntries[ex.id] = {
        weight: e.weight === "" ? "" : clampNumber(e.weight),
        reps: e.reps === "" ? "" : clampNumber(e.reps),
        sets: e.sets === "" ? "" : clampNumber(e.sets),
      };
    }
    const payload = {
      id: `${date}-${dayKey}-${Math.random().toString(16).slice(2)}`,
      date, dayKey, dayName: day.title,
      cardio: { type: day.cardio.type,
                minutes: cardioMinutes === "" ? "" : clampNumber(cardioMinutes) },
      notes: notes.trim(), entries: cleanEntries,
      createdAt: new Date().toISOString(),
    };
    setSessions((prev) => ...);   // the upsert above
    setNotes(""); setTab("progress");
  }
  \<close>
  The random suffix of the id and the time stamp are arguments. For a day key outside
  the catalog \<^verbatim>\<open>day.exercises\<close> throws a \<^verbatim>\<open>TypeError\<close>, which is \<open>None\<close>.
\<close>

definition emptyEntry :: entry where
  "emptyEntry = \<lparr>weight = Str '''', reps = Str '''', sets = Str ''''\<rparr>"

definition cleanField :: "jsval \<Rightarrow> jsval" where
  "cleanField v = (if v = Str '''' then Str '''' else clampNumber v)"

definition cleanEntry :: "entry \<Rightarrow> entry" where
  "cleanEntry e =
     \<lparr>weight = cleanField (weight e), reps = cleanField (reps e), sets = cleanField (sets e)\<rparr>"

definition cleanEntries :: "(string \<times> entry) list \<Rightarrow> exercise list \<Rightarrow> (string \<times> entry) list" where
  "cleanEntries es exs =
     foldl (\<lambda>acc ex.
              AList.update (ex_id ex)
                (cleanEntry (case map_of es (ex_id ex) of None \<Rightarrow> emptyEntry | Some e \<Rightarrow> e)) acc)
       [] exs"

definition payload :: "string \<Rightarrow> string \<Rightarrow> app_state \<Rightarrow> day_rec \<Rightarrow> session" where
  "payload rnd now st day =
     \<lparr>session_id = formDate st @ ''-'' @ formDayKey st @ ''-'' @ rnd,
      date = formDate st,
      dayKey = formDayKey st,
      dayName = title day,
      cardio = \<lparr>cardio_type = day_cardio_type day, minutes = cleanField (cardioMinutes st)\<rparr>,
      notes_text = trim (formNotes st),
      entries = cleanEntries (formEntries st) (exercises day),
      createdAt = now\<rparr>"

definition saveSession :: "string \<Rightarrow> string \<Rightarrow> app_state \<Rightarrow> app_state option" where
  "saveSession rnd now st =
     (case map_of PROGRAM_days (formDayKey st) of
        None \<Rightarrow> None
      | Some day \<Rightarrow>
          Some (st\<lparr>sessions :=
                     upsertSession (formDate st) (formDayKey st) (payload rnd now st day) (sessions st),
                   formNotes := '''',
                   tab := ''progress''\<rparr>))"

text \<open>\<^verbatim>\<open>saveSession\<close> of \<^verbatim>\<open>src/App.jsx\<close>: the same function with the other upsert.\<close>

definition saveSession_App :: "string \<Rightarrow> string \<Rightarrow> app_state \<Rightarrow> app_state option" where
  "saveSession_App rnd now st =
     (case map_of PROGRAM_days (formDayKey st) of
        None \<Rightarrow> None
      | Some day \<Rightarrow>
          Some (st\<lparr>sessions :=
                     upsertSession_App (formDate st) (formDayKey st) (payload rnd now st day)
                       (sessions st),
                   formNotes := '''',
                   tab := ''progress''\<rparr>))"

subsection \<open>Analytics: chartData and lastTwo\<close>

text \<open>
  \<^verbatim>\<open>
  const chartData = useMemo(() => {
    const rows = sessions
      .filter((s) => s.entries && s.entries[selectedExerciseId])
      .map((s) => {
        const e = s.entries[selectedExerciseId];
        const w = e?.weight;
        const weight = w === "" || w === null || w === undefined ? null : Number(w);
        return { date: s.date, weight, dayKey: s.dayKey };
      })
      .sort((a, b) => (a.date > b.date ? 1 : -1));
    return rows;
  }, [sessions, selectedExerciseId]);
  \<close>
  A point's weight is \<open>None\<close> for \<^verbatim>\<open>null\<close> and \<open>Some n\<close> for a number.
\<close>

record point =
  p_date :: string
  p_weight :: "jsnum option"
  p_dayKey :: string

definition chartWeight :: "jsval \<Rightarrow> jsnum option" where
  "chartWeight w = (if w = Str '''' \<or> w = Null \<or> w = Undefined then None else Some (Number w))"

definition chartPoint :: "string \<Rightarrow> session \<Rightarrow> point" where
  "chartPoint selectedExerciseId s =
     \<lparr>p_date = date s,
      p_weight = chartWeight (entryWeight s selectedExerciseId),
      p_dayKey = dayKey s\<rparr>"

definition recordsExercise :: "string \<Rightarrow> session \<Rightarrow> bool" where
  "recordsExercise selectedExerciseId s = (map_of (entries s) selectedExerciseId \<noteq> None)"

text \<open>The comparator \<^verbatim>\<open>(a, b) => (a.date > b.date ? 1 : -1)\<close>; strings compare
  lexicographically by character code.\<close>

definition byDate :: "point \<Rightarrow> point \<Rightarrow> int" where
  "byDate a b = (if p_date a > p_date b then 1 else - 1)"

text \<open>
  \<^verbatim>\<open>Array.prototype.sort(comparefn)\<close>. ECMAScript leaves the algorithm to the engine;
  it is modelled as an insertion sort that moves an element past another exactly when
  the comparator returns a positive number for the pair. For two points of one date the
  comparator above answers \<open>-1\<close> in both directions; which of them comes first is then
  the engine's choice, and in the model the one that came first stays first.
\<close>

fun insertSorted :: "('a \<Rightarrow> 'a \<Rightarrow> int) \<Rightarrow> 'a \<Rightarrow> 'a list \<Rightarrow> 'a list" where
  "insertSorted cmp x [] = [x]"
| "insertSorted cmp x (y # ys) =
     (if cmp x y > 0 then y # insertSorted cmp x ys else x # y # ys)"

definition sortBy :: "('a \<Rightarrow> 'a \<Rightarrow> int) \<Rightarrow> 'a list \<Rightarrow> 'a list" where
  "sortBy cmp xs = foldr (insertSorted cmp) xs []"

definition chartData :: "session list \<Rightarrow> string \<Rightarrow> point list" where
  "chartData sessions' selectedExerciseId =
     sortBy byDate
       (map (chartPoint selectedExerciseId)
          (filter (recordsExercise selectedExerciseId) sessions'))"











subsection \<open>JSON, export and import\<close>

text \<open>
  The store that \<^verbatim>\<open>setSessions(parsed.data.sessions)\<close> installs is whatever array the
  file holds, so export and import are modelled on untyped JavaScript values. An object
  is the list of its properties in property order.
\<close>

datatype jv =
    VUndefined
  | VNull
  | VBool bool
  | VNum jsnum
  | VStr string
  | VArr "jv list"
  | VObj "(string \<times> jv) list"

text \<open>
  The character syntax of JSON is not modelled. A file's text either is not JSON, and
  then carries the message of the \<^verbatim>\<open>SyntaxError\<close> that \<^verbatim>\<open>JSON.parse\<close> throws on
  it, or is a JSON document.
\<close>

datatype json =
    JNull
  | JBool bool
  | JNumber rat
  | JString string
  | JArray "json list"
  | JObject "(string \<times> json) list"

datatype file_text = Malformed string | Document json

text \<open>The value \<^verbatim>\<open>JSON.parse\<close> builds from a document; of a repeated key the last
  value stays, at the key's first position.\<close>

fun JSON_value :: "json \<Rightarrow> jv" where
  "JSON_value JNull = VNull"
| "JSON_value (JBool b) = VBool b"
| "JSON_value (JNumber q) = VNum (Fin q)"
| "JSON_value (JString s) = VStr s"
| "JSON_value (JArray xs) = VArr (map JSON_value xs)"
| "JSON_value (JObject kvs) =
     VObj (foldl (\<lambda>acc kv. AList.update (fst kv) (snd kv) acc) []
             (map (\<lambda>kv. (fst kv, JSON_value (snd kv))) kvs))"

text \<open>
  \<^verbatim>\<open>
  function safeParseJSON(text) {
    try { return { ok: true, data: JSON.parse(text) }; }
    catch (e) { return { ok: false, error: String(e) }; }
  }
  \<close>
\<close>

datatype parsed = Failed string | Ok jv

definition safeParseJSON :: "file_text \<Rightarrow> parsed" where
  "safeParseJSON text = (case text of Malformed e \<Rightarrow> Failed e | Document d \<Rightarrow> Ok (JSON_value d))"

text \<open>
  \<^verbatim>\<open>JSON.stringify\<close>: \<^verbatim>\<open>undefined\<close> has no serialization (\<open>None\<close>), so a property
  holding it is left out and an array element holding it is written \<^verbatim>\<open>null\<close>; a number
  that is not finite is written \<^verbatim>\<open>null\<close>.
\<close>

fun SerializeJSONProperty :: "jv \<Rightarrow> json option" where
  "SerializeJSONProperty VUndefined = None"
| "SerializeJSONProperty VNull = Some JNull"
| "SerializeJSONProperty (VBool b) = Some (JBool b)"
| "SerializeJSONProperty (VNum n) = Some (case n of Fin q \<Rightarrow> JNumber q | _ \<Rightarrow> JNull)"
| "SerializeJSONProperty (VStr s) = Some (JString s)"
| "SerializeJSONProperty (VArr xs) =
     Some (JArray (map (\<lambda>x. case SerializeJSONProperty x of None \<Rightarrow> JNull | Some j \<Rightarrow> j) xs))"
| "SerializeJSONProperty (VObj kvs) =
     Some (JObject (concat (map (\<lambda>kv. case SerializeJSONProperty (snd kv) of
                                         None \<Rightarrow> []
                                       | Some j \<Rightarrow> [(fst kv, j)]) kvs)))"

text \<open>
  \<^verbatim>\<open>
  function exportData() {
    const blob = new Blob([JSON.stringify({ sessions }, null, 2)], { type: "application/json" });
    ... a.download = `gym-tracker-export-${todayISO()}.json`; a.click(); ...
  }
  \<close>
  The result is the downloaded file: its name and its text. A blob part that is
  \<^verbatim>\<open>undefined\<close> would be written as the text \<^verbatim>\<open>undefined\<close>, which is not JSON.
\<close>

definition exportText :: "jv list \<Rightarrow> file_text" where
  "exportText sessions' =
     (case SerializeJSONProperty (VObj [(''sessions'', VArr sessions')]) of
        None \<Rightarrow> Malformed ''SyntaxError''
      | Some d \<Rightarrow> Document d)"

definition exportData :: "string \<Rightarrow> jv list \<Rightarrow> string \<times> file_text" where
  "exportData today sessions' =
     (''gym-tracker-export-'' @ today @ ''.json'', exportText sessions')"

text \<open>Truthiness, and the read of a property that no prototype defines.\<close>

definition truthy :: "jv \<Rightarrow> bool" where
  "truthy v =
     (case v of
        VUndefined \<Rightarrow> False
      | VNull \<Rightarrow> False
      | VBool b \<Rightarrow> b
      | VNum n \<Rightarrow> n \<noteq> NaN \<and> n \<noteq> Fin 0
      | VStr s \<Rightarrow> s \<noteq> []
      | VArr xs \<Rightarrow> True
      | VObj kvs \<Rightarrow> True)"

definition getProp :: "jv \<Rightarrow> string \<Rightarrow> jv" where
  "getProp v k =
     (case v of
        VObj kvs \<Rightarrow> (case map_of kvs k of None \<Rightarrow> VUndefined | Some x \<Rightarrow> x)
      | _ \<Rightarrow> VUndefined)"

text \<open>
  \<^verbatim>\<open>
  async function importDataFromFile(file) {
    const text = await file.text();
    const parsed = safeParseJSON(text);
    if (!parsed.ok) { alert(`Import failed: ${parsed.error}`); return; }
    if (!parsed.data || !Array.isArray(parsed.data.sessions)) {
      alert("Import failed: expected { sessions: [...] }"); return;
    }
    setSessions(parsed.data.sessions);
    alert("Import complete.");
  }
  \<close>
  The result is the message shown to the user and the store afterwards.
\<close>

definition importDataFromFile :: "jv list \<Rightarrow> file_text \<Rightarrow> string \<times> jv list" where
  "importDataFromFile sessions' text =
     (case safeParseJSON text of
        Failed e \<Rightarrow> (''Import failed: '' @ e, sessions')
      | Ok data \<Rightarrow>
          if \<not> truthy data then (''Import failed: expected { sessions: [...] }'', sessions')
          else
            (case getProp data ''sessions'' of
               VArr xs \<Rightarrow> (''Import complete.'', xs)
             | _ \<Rightarrow> (''Import failed: expected { sessions: [...] }'', sessions')))"

text \<open>
  The session records as JavaScript objects, with the properties in the order in which
  \<^verbatim>\<open>saveSession\<close> writes them. A field that reads \<^verbatim>\<open>undefined\<close> is an absent
  property.
\<close>

definition jv_of_val :: "jsval \<Rightarrow> jv" where
  "jv_of_val v =
     (case v of Undefined \<Rightarrow> VUndefined | Null \<Rightarrow> VNull | Str s \<Rightarrow> VStr s | Num n \<Rightarrow> VNum n)"

definition ownProp :: "string \<Rightarrow> jsval \<Rightarrow> (string \<times> jv) list" where
  "ownProp k v = (if v = Undefined then [] else [(k, jv_of_val v)])"

definition jv_of_entry :: "entry \<Rightarrow> jv" where
  "jv_of_entry e = VObj (ownProp ''weight'' (weight e) @ ownProp ''reps'' (reps e) @ ownProp ''sets'' (sets e))"

definition jv_of_session :: "session \<Rightarrow> jv" where
  "jv_of_session s =
     VObj [(''id'', VStr (session_id s)),
           (''date'', VStr (date s)),
           (''dayKey'', VStr (dayKey s)),
           (''dayName'', VStr (dayName s)),
           (''cardio'',
              VObj ((''type'', VStr (cardio_type (cardio s))) # ownProp ''minutes'' (minutes (cardio s)))),
           (''notes'', VStr (notes_text s)),
           (''entries'', VObj (map (\<lambda>ke. (fst ke, jv_of_entry (snd ke))) (entries s))),
           (''createdAt'', VStr (createdAt s))]"

text \<open>Values that JSON represents exactly: no \<^verbatim>\<open>undefined\<close>, every number finite,
  and no object with a repeated key.\<close>

fun json_safe :: "jv \<Rightarrow> bool" where
  "json_safe VUndefined = False"
| "json_safe VNull = True"
| "json_safe (VBool b) = True"
| "json_safe (VNum n) = (case n of Fin q \<Rightarrow> True | _ \<Rightarrow> False)"
| "json_safe (VStr s) = True"
| "json_safe (VArr xs) = list_all json_safe xs"
| "json_safe (VObj kvs) = (distinct (map fst kvs) \<and> list_all (\<lambda>kv. json_safe (snd kv)) kvs)"

subsection \<open>Auxiliary notions for the properties\<close>


text \<open>A stored numeric field is the empty string or a number other than \<open>NaN\<close>.\<close>

definition emptyOrNumber :: "jsval \<Rightarrow> bool" where
  "emptyOrNumber v = (case v of Str s \<Rightarrow> s = [] | Num n \<Rightarrow> n \<noteq> NaN | _ \<Rightarrow> False)"

text \<open>A session has, for an exercise, a weight that is a value: not the empty string, not
  \<^verbatim>\<open>null\<close>, not \<^verbatim>\<open>undefined\<close>.\<close>

definition nonEmptyWeight :: "string \<Rightarrow> session \<Rightarrow> bool" where
  "nonEmptyWeight exId s =
     (case map_of (entries s) exId of
        None \<Rightarrow> False
      | Some e \<Rightarrow> \<not> (weight e = Str [] \<or> weight e = Null \<or> weight e = Undefined))"

text \<open>A session whose weight for an exercise, if it has one, is neither \<^verbatim>\<open>null\<close> nor
  \<^verbatim>\<open>undefined\<close>.\<close>

definition noNullWeight :: "string \<Rightarrow> session \<Rightarrow> bool" where
  "noNullWeight exId s =
     (case map_of (entries s) exId of
        None \<Rightarrow> True
      | Some e \<Rightarrow> weight e \<noteq> Null \<and> weight e \<noteq> Undefined)"

text \<open>Sessions whose numeric fields hold no infinite number and no \<open>NaN\<close>, and whose
  entries are keyed without repetition, as the properties of an object are.\<close>

definition finite_val :: "jsval \<Rightarrow> bool" where
  "finite_val v = (case v of Num n \<Rightarrow> (case n of Fin q \<Rightarrow> True | _ \<Rightarrow> False) | _ \<Rightarrow> True)"

definition finite_session :: "session \<Rightarrow> bool" where
  "finite_session s =
     (finite_val (minutes (cardio s)) \<and> distinct (map fst (entries s))
      \<and> list_all (\<lambda>ke. finite_val (weight (snd ke)) \<and> finite_val (reps (snd ke))
                         \<and> finite_val (sets (snd ke))) (entries s))"

text \<open>A sequence of upserts of \<^verbatim>\<open>src/App.jsx\<close>, and the invariant they keep: no two
  sessions share both date and day key.\<close>

definition upserts_App :: "session list \<Rightarrow> session list \<Rightarrow> session list" where
  "upserts_App store ss = foldl upsert_App store ss"

definition unique_date_and_day :: "session list \<Rightarrow> bool" where
  "unique_date_and_day store = distinct (map (\<lambda>s. (date s, dayKey s)) store)"

subsection \<open>Example data\<close>

text \<open>A session for a date and a day that records one weight, that of
  \<^verbatim>\<open>shoulder_press\<close>.\<close>

definition example_session :: "string \<Rightarrow> string \<Rightarrow> jsval \<Rightarrow> session" where
  "example_session d k w =
     \<lparr>session_id = d @ ''-'' @ k, date = d, dayKey = k, dayName = k,
      cardio = \<lparr>cardio_type = ''Incline walk'', minutes = Num (Fin 15)\<rparr>,
      notes_text = '''',
      entries = [(''shoulder_press'', \<lparr>weight = w, reps = Str '''', sets = Str ''''\<rparr>)],
      createdAt = d\<rparr>"

text \<open>Three sessions, saved from the newest date to the oldest; the second records no
  weight.\<close>

definition example_store :: "session list" where
  "example_store =
     [example_session ''2024-01-08'' ''d1'' (Num (Fin 42)),
      example_session ''2024-01-05'' ''d1'' (Str []),
      example_session ''2024-01-01'' ''d1'' (Num (Fin 40))]"


text \<open>A form for day 4 with a weight typed as \<^verbatim>\<open>12.5\<close>, reps typed as \<^verbatim>\<open>abc\<close>, a
  missing sets field, cardio minutes typed as \<^verbatim>\<open>x\<close>, and an entry left from day 1.\<close>

definition example_form :: app_state where
  "example_form =
     \<lparr>tab = ''log'', sessions = [], formDate = ''2024-01-01'', formDayKey = ''d4'',
      formNotes = '' arms '', cardioMinutes = Str ''x'',
      formEntries =
        [(''biceps_curl'', \<lparr>weight = Str ''12.5'', reps = Str ''abc'', sets = Undefined\<rparr>),
         (''shoulder_press'', \<lparr>weight = Num (Fin 35), reps = Str ''8'', sets = Str ''3''\<rparr>)]\<rparr>"

text \<open>A store whose newest session records \<^verbatim>\<open>null\<close> as the weight.\<close>

definition null_weight_store :: "session list" where
  "null_weight_store =
     [example_session ''2024-01-01'' ''d1'' (Num (Fin 40)),
      example_session ''2024-01-08'' ''d1'' Null]"

text \<open>Stores as arrays of JavaScript values: one that holds an infinite weight, and one
  whose numbers are finite.\<close>

definition infinity_store :: "jv list" where
  "infinity_store = [jv_of_session (example_session ''2024-01-08'' ''d1'' (Num PInf))]"

definition finite_store :: "jv list" where
  "finite_store =
     [jv_of_session (example_session ''2024-01-01'' ''d1'' (Num (Fin 40))),
      jv_of_session (example_session ''2024-01-08'' ''d1'' (Str []))]"

text \<open>A store built by three saves: 8 January, then 1 January, then 8 January again.\<close>

definition edited_store :: "session list" where
  "edited_store =
     upserts []
       [(example_session ''2024-01-08'' ''d1'' (Num (Fin 42)))\<lparr>createdAt := ''2024-01-08T18:00:00.000Z''\<rparr>,
        (example_session ''2024-01-01'' ''d1'' (Num (Fin 40)))\<lparr>createdAt := ''2024-01-09T09:00:00.000Z''\<rparr>,
        (example_session ''2024-01-08'' ''d1'' (Num (Fin 45)))\<lparr>createdAt := ''2024-01-10T09:00:00.000Z''\<rparr>]"

section \<open>Properties of findIndex\<close>

lemma findIndexFrom_none:
  "list_all (\<lambda>x. \<not> P x) xs \<Longrightarrow> findIndexFrom P xs k = - 1"
  by (induction xs arbitrary: k) auto

lemma findIndexFrom_first:
  "first_at P xs i \<Longrightarrow> findIndexFrom P xs k = int (k + i)"
proof (induction xs arbitrary: k i)
  case Nil
  then show ?case by (simp add: first_at_def)
next
  case (Cons x xs)
  show ?case
  proof (cases i)
    case 0
    with Cons.prems show ?thesis by (simp add: first_at_def)
  next
    case (Suc j)
    with Cons.prems have "\<not> P x" and "first_at P xs j"
      by (simp_all add: first_at_def)
    with Cons.IH [of j "Suc k"] Suc show ?thesis by simp
  qed
qed

lemma findIndex_none: "list_all (\<lambda>x. \<not> P x) xs \<Longrightarrow> findIndex P xs = - 1"
  by (simp add: findIndex_def findIndexFrom_none)

lemma findIndex_first: "first_at P xs i \<Longrightarrow> findIndex P xs = int i"
  by (simp add: findIndex_def findIndexFrom_first)

lemma first_at_exists:
  "\<not> list_all (\<lambda>x. \<not> P x) xs \<Longrightarrow> \<exists>i. first_at P xs i"
proof (induction xs)
  case Nil
  then show ?case by simp
next
  case (Cons x xs)
  show ?case
  proof (cases "P x")
    case True
    then have "first_at P (x # xs) 0" by (simp add: first_at_def)
    then show ?thesis ..
  next
    case False
    with Cons obtain j where "first_at P xs j" by auto
    with False have "first_at P (x # xs) (Suc j)" by (simp add: first_at_def)
    then show ?thesis ..
  qed
qed

lemma findIndex_cases:
  obtains (none) "list_all (\<lambda>x. \<not> P x) xs" "findIndex P xs = - 1"
  | (found) i where "first_at P xs i" "findIndex P xs = int i"
  using findIndex_none [of P xs] findIndex_first [of P xs] first_at_exists [of P xs]
  by blast

section \<open>Session upsert\<close>

lemma first_at_take_update:
  "first_at P xs i \<Longrightarrow> P y \<Longrightarrow> first_at P (xs[i := y]) i"
  by (simp add: first_at_def)

lemma upsert_both:
  assumes "first_at (\<lambda>x. date x = date s \<and> dayKey x = dayKey s) store i"
  shows "upsert store s = store[i := s]"
  using findIndex_first [OF assms] by (simp add: upsert_def upsertSession_def)

lemma upsert_date_only:
  assumes "list_all (\<lambda>x. \<not> (date x = date s \<and> dayKey x = dayKey s)) store"
    and "first_at (\<lambda>x. date x = date s) store j"
  shows "upsert store s = store[j := s]"
  using findIndex_none [OF assms(1)] findIndex_first [OF assms(2)]
  by (simp add: upsert_def upsertSession_def)

lemma list_all_weaken_date:
  "list_all (\<lambda>x. date x \<noteq> d) store \<Longrightarrow> list_all (\<lambda>x. \<not> (date x = d \<and> dayKey x = k)) store"
  by (induction store) auto

lemma upsert_append:
  assumes "list_all (\<lambda>x. date x \<noteq> date s) store"
  shows "upsert store s = store @ [s]"
  using findIndex_none [OF assms] findIndex_none [OF list_all_weaken_date [OF assms]]
  by (simp add: upsert_def upsertSession_def)

text \<open>One of the three cases of the calendar version's upsert always applies.\<close>

lemma upsert_cases:
  obtains (both) i where "first_at (\<lambda>x. date x = date s \<and> dayKey x = dayKey s) store i"
      "upsert store s = store[i := s]"
  | (date_only) j where "list_all (\<lambda>x. \<not> (date x = date s \<and> dayKey x = dayKey s)) store"
      "first_at (\<lambda>x. date x = date s) store j" "upsert store s = store[j := s]"
  | (append) "list_all (\<lambda>x. date x \<noteq> date s) store" "upsert store s = store @ [s]"
proof (cases rule: findIndex_cases [of "\<lambda>x. date x = date s \<and> dayKey x = dayKey s" store])
  case found
  then show ?thesis using both upsert_both by blast
next
  case none
  note nb = none(1)
  show ?thesis
  proof (cases rule: findIndex_cases [of "\<lambda>x. date x = date s" store])
    case found
    then show ?thesis using date_only nb upsert_date_only by blast
  next
    case none
    then show ?thesis using append upsert_append by blast
  qed
qed

text \<open>A session stored under another date is never touched.\<close>

lemma upsert_frame:
  assumes k: "k < length store" "date (store ! k) \<noteq> date s"
  shows "k < length (upsert store s) \<and> upsert store s ! k = store ! k"
proof (cases rule: upsert_cases [of s store])
  case (both i)
  from both k have "k \<noteq> i" by (auto simp: first_at_def)
  with both k show ?thesis by simp
next
  case (date_only j)
  from date_only k have "k \<noteq> j" by (auto simp: first_at_def)
  with date_only k show ?thesis by simp
next
  case append
  with k show ?thesis by (simp add: nth_append)
qed

lemma map_date_upsert:
  "map date (upsert store s) =
     (if date s \<in> set (map date store) then map date store else map date store @ [date s])"
proof (cases rule: upsert_cases [of s store])
  case (both i)
  then have "i < length store" "date (store ! i) = date s" by (simp_all add: first_at_def)
  then have "map date (store[i := s]) = map date store" "date s \<in> set (map date store)"
    by (simp_all add: map_update list_update_same_conv) (metis nth_mem image_eqI)
  with both show ?thesis by simp
next
  case (date_only j)
  then have "j < length store" "date (store ! j) = date s" by (simp_all add: first_at_def)
  then have "map date (store[j := s]) = map date store" "date s \<in> set (map date store)"
    by (simp_all add: map_update list_update_same_conv) (metis nth_mem image_eqI)
  with date_only show ?thesis by simp
next
  case append
  then have "date s \<notin> set (map date store)" by (auto simp: list_all_iff)
  with append show ?thesis by simp
qed

lemma unique_dates_upsert: "unique_dates store \<Longrightarrow> unique_dates (upsert store s)"
  by (simp add: unique_dates_def map_date_upsert)

text \<open>
  The updater of \<^verbatim>\<open>src/App.jsx\<close> has no date-only step: it appends whenever no
  session has both the candidate's date and day key. The form of \<^verbatim>\<open>src/App.jsx\<close>
  tells the user so (\<^verbatim>\<open>Saving a session with the same date and day will overwrite the
  previous one.\<close>), where the calendar version says \<^verbatim>\<open>Saving the same date overwrites
  the existing session for that date.\<close>
\<close>

lemma upsert_App_both:
  assumes "first_at (\<lambda>x. date x = date s \<and> dayKey x = dayKey s) store i"
  shows "upsert_App store s = store[i := s]"
  using findIndex_first [OF assms] by (simp add: upsert_App_def upsertSession_App_def)

lemma upsert_App_append:
  assumes "list_all (\<lambda>x. \<not> (date x = date s \<and> dayKey x = dayKey s)) store"
  shows "upsert_App store s = store @ [s]"
  using findIndex_none [OF assms] by (simp add: upsert_App_def upsertSession_App_def)

lemma map_key_upsert_App:
  "map (\<lambda>s. (date s, dayKey s)) (upsert_App store s) =
     (if (date s, dayKey s) \<in> set (map (\<lambda>s. (date s, dayKey s)) store)
      then map (\<lambda>s. (date s, dayKey s)) store
      else map (\<lambda>s. (date s, dayKey s)) store @ [(date s, dayKey s)])"
proof (cases rule: findIndex_cases [of "\<lambda>x. date x = date s \<and> dayKey x = dayKey s" store])
  case (found i)
  then have i: "i < length store" "(date (store ! i), dayKey (store ! i)) = (date s, dayKey s)"
    by (simp_all add: first_at_def)
  then have "map (\<lambda>s. (date s, dayKey s)) (store[i := s]) = map (\<lambda>s. (date s, dayKey s)) store"
    by (simp add: map_update list_update_same_conv)
  moreover from i have "(date s, dayKey s) \<in> set (map (\<lambda>s. (date s, dayKey s)) store)"
    by (metis (mono_tags, lifting) length_map nth_map nth_mem)
  ultimately show ?thesis using upsert_App_both [OF found(1)] by simp
next
  case none
  then have "(date s, dayKey s) \<notin> set (map (\<lambda>s. (date s, dayKey s)) store)"
    by (auto simp: list_all_iff)
  with upsert_App_append [OF none(1)] show ?thesis by simp
qed

lemma unique_date_and_day_upsert_App:
  "unique_date_and_day store \<Longrightarrow> unique_date_and_day (upsert_App store s)"
  by (simp add: unique_date_and_day_def map_key_upsert_App)

text \<open>
  Claim C1, as amended. If a session has the candidate's date and day key, both versions
  replace the first such session at its position. Otherwise the calendar version
  replaces, at its position, the first session that has the candidate's date, and
  appends the candidate if there is none; \<^verbatim>\<open>src/App.jsx\<close> appends the candidate in
  both cases. A list update \<open>store[i := s]\<close> changes position \<open>i\<close> only, so every
  other session stays as it was, at its place.
\<close>

theorem saveSession_upsert_contract:
  "(first_at (\<lambda>x. date x = date s \<and> dayKey x = dayKey s) store i \<longrightarrow>
      upsert store s = store[i := s] \<and> upsert_App store s = store[i := s])
   \<and> (list_all (\<lambda>x. \<not> (date x = date s \<and> dayKey x = dayKey s)) store \<and>
      first_at (\<lambda>x. date x = date s) store j \<longrightarrow>
      upsert store s = store[j := s] \<and> upsert_App store s = store @ [s])
   \<and> (list_all (\<lambda>x. date x \<noteq> date s) store \<longrightarrow>
      upsert store s = store @ [s] \<and> upsert_App store s = store @ [s])"
  using upsert_both upsert_date_only upsert_append upsert_App_both upsert_App_append
    list_all_weaken_date
  by blast

theorem saveSession_upsert_contract_witness:
  "first_at (\<lambda>x. date x = ''2024-01-01'' \<and> dayKey x = ''d1'')
     [example_session ''2024-01-01'' ''d1'' (Num (Fin 40))] 0
   \<and> upsert [example_session ''2024-01-01'' ''d1'' (Num (Fin 40))]
        (example_session ''2024-01-01'' ''d1'' (Num (Fin 42)))
      = [example_session ''2024-01-01'' ''d1'' (Num (Fin 42))]
   \<and> upsert_App [example_session ''2024-01-01'' ''d1'' (Num (Fin 40))]
        (example_session ''2024-01-01'' ''d1'' (Num (Fin 42)))
      = [example_session ''2024-01-01'' ''d1'' (Num (Fin 42))]
   \<and> list_all (\<lambda>x. \<not> (date x = ''2024-01-08'' \<and> dayKey x = ''d3''))
        [example_session ''2024-01-01'' ''d1'' (Num (Fin 40)),
         example_session ''2024-01-08'' ''d2'' (Str [])]
   \<and> first_at (\<lambda>x. date x = ''2024-01-08'')
        [example_session ''2024-01-01'' ''d1'' (Num (Fin 40)),
         example_session ''2024-01-08'' ''d2'' (Str [])] 1
   \<and> upsert [example_session ''2024-01-01'' ''d1'' (Num (Fin 40)),
              example_session ''2024-01-08'' ''d2'' (Str [])]
        (example_session ''2024-01-08'' ''d3'' (Str []))
      = [example_session ''2024-01-01'' ''d1'' (Num (Fin 40)),
         example_session ''2024-01-08'' ''d3'' (Str [])]
   \<and> upsert_App [example_session ''2024-01-01'' ''d1'' (Num (Fin 40)),
              example_session ''2024-01-08'' ''d2'' (Str [])]
        (example_session ''2024-01-08'' ''d3'' (Str []))
      = [example_session ''2024-01-01'' ''d1'' (Num (Fin 40)),
         example_session ''2024-01-08'' ''d2'' (Str []),
         example_session ''2024-01-08'' ''d3'' (Str [])]
   \<and> list_all (\<lambda>x. date x \<noteq> ''2024-01-08'')
        [example_session ''2024-01-01'' ''d1'' (Num (Fin 40))]
   \<and> upsert [example_session ''2024-01-01'' ''d1'' (Num (Fin 40))]
        (example_session ''2024-01-08'' ''d1'' (Num (Fin 42)))
      = [example_session ''2024-01-01'' ''d1'' (Num (Fin 40)),
         example_session ''2024-01-08'' ''d1'' (Num (Fin 42))]
   \<and> upsert_App [example_session ''2024-01-01'' ''d1'' (Num (Fin 40))]
        (example_session ''2024-01-08'' ''d1'' (Num (Fin 42)))
      = [example_session ''2024-01-01'' ''d1'' (Num (Fin 40)),
         example_session ''2024-01-08'' ''d1'' (Num (Fin 42))]"
  using
    saveSession_upsert_contract
      [of "example_session ''2024-01-01'' ''d1'' (Num (Fin 42))"
          "[example_session ''2024-01-01'' ''d1'' (Num (Fin 40))]" 0 0]
    saveSession_upsert_contract
      [of "example_session ''2024-01-08'' ''d3'' (Str [])"
          "[example_session ''2024-01-01'' ''d1'' (Num (Fin 40)),
            example_session ''2024-01-08'' ''d2'' (Str [])]" 0 1]
    saveSession_upsert_contract
      [of "example_session ''2024-01-08'' ''d1'' (Num (Fin 42))"
          "[example_session ''2024-01-01'' ''d1'' (Num (Fin 40))]" 0 0]
  by (simp add: first_at_def example_session_def)

text \<open>
  Claim C1 as stated fails for \<^verbatim>\<open>saveSession\<close> of \<^verbatim>\<open>src/App.jsx\<close>: the store holds
  one session for 2024-01-01 under day \<^verbatim>\<open>d1\<close>, the candidate is for the same date
  under day \<^verbatim>\<open>d2\<close>, and the result is not the store with that session replaced.
\<close>

theorem upsert_App_same_date_other_day:
  "list_all (\<lambda>x. \<not> (date x = ''2024-01-01'' \<and> dayKey x = ''d2''))
     [example_session ''2024-01-01'' ''d1'' (Num (Fin 40))]
   \<and> first_at (\<lambda>x. date x = ''2024-01-01'')
        [example_session ''2024-01-01'' ''d1'' (Num (Fin 40))] 0
   \<and> upsert_App [example_session ''2024-01-01'' ''d1'' (Num (Fin 40))]
        (example_session ''2024-01-01'' ''d2'' (Str []))
      \<noteq> [example_session ''2024-01-01'' ''d1'' (Num (Fin 40))]
          [0 := example_session ''2024-01-01'' ''d2'' (Str [])]"
  using upsert_App_append
    [of "example_session ''2024-01-01'' ''d2'' (Str [])"
        "[example_session ''2024-01-01'' ''d1'' (Num (Fin 40))]"]
  by (simp add: example_session_def first_at_def)

text \<open>
  Claim C8. Upserting the same session a second time changes nothing: the store after
  the second application is the store after the first. This holds for the upsert of the
  calendar version and for that of \<^verbatim>\<open>src/App.jsx\<close>.
\<close>

theorem upsert_idempotent:
  "upsert (upsert store s) s = upsert store s
   \<and> upsert_App (upsert_App store s) s = upsert_App store s"
proof
  show "upsert (upsert store s) s = upsert store s"
  proof (cases rule: upsert_cases [of s store])
    case (both i)
    from first_at_take_update [OF both(1), of s]
    have "upsert (store[i := s]) s = store[i := s, i := s]" by (intro upsert_both) simp
    with both show ?thesis by simp
  next
    case (date_only j)
    have "first_at (\<lambda>x. date x = date s \<and> dayKey x = dayKey s) (store[j := s]) j"
      using date_only(1,2) by (simp add: first_at_def list_all_iff)
    then have "upsert (store[j := s]) s = store[j := s, j := s]" by (rule upsert_both)
    with date_only show ?thesis by simp
  next
    case append
    have "first_at (\<lambda>x. date x = date s \<and> dayKey x = dayKey s) (store @ [s]) (length store)"
      using list_all_weaken_date [OF append(1)] by (simp add: first_at_def)
    then have "upsert (store @ [s]) s = (store @ [s])[length store := s]" by (rule upsert_both)
    with append show ?thesis by simp
  qed
  show "upsert_App (upsert_App store s) s = upsert_App store s"
  proof (cases rule: findIndex_cases [of "\<lambda>x. date x = date s \<and> dayKey x = dayKey s" store])
    case (found i)
    from first_at_take_update [OF found(1), of s]
    have "upsert_App (store[i := s]) s = store[i := s, i := s]" by (intro upsert_App_both) simp
    with upsert_App_both [OF found(1)] show ?thesis by simp
  next
    case none
    have "first_at (\<lambda>x. date x = date s \<and> dayKey x = dayKey s) (store @ [s]) (length store)"
      using none(1) by (simp add: first_at_def)
    then have "upsert_App (store @ [s]) s = (store @ [s])[length store := s]"
      by (rule upsert_App_both)
    with upsert_App_append [OF none(1)] show ?thesis by simp
  qed
qed

text \<open>
  Claim C2, as amended. With the calendar version's upsert, a store in which no two
  sessions share a date stays so after any sequence of upserts. With the upsert of
  \<^verbatim>\<open>src/App.jsx\<close>, a store in which no two sessions share both date and day key
  stays so after any sequence of upserts.
\<close>

theorem upserts_unique_dates:
  "(unique_dates store \<longrightarrow> unique_dates (upserts store ss))
   \<and> (unique_date_and_day store \<longrightarrow> unique_date_and_day (upserts_App store ss))"
proof (induction ss arbitrary: store)
  case Nil
  show ?case by (simp add: upserts_def upserts_App_def)
next
  case (Cons s ss)
  have "upserts store (s # ss) = upserts (upsert store s) ss"
    and "upserts_App store (s # ss) = upserts_App (upsert_App store s) ss"
    by (simp_all add: upserts_def upserts_App_def)
  with Cons [of "upsert store s"] Cons [of "upsert_App store s"]
  show ?case
    using unique_dates_upsert [of store s] unique_date_and_day_upsert_App [of store s]
    by simp
qed

theorem upserts_unique_dates_witness:
  "unique_dates [example_session ''2024-01-01'' ''d1'' (Num (Fin 40))]
   \<and> unique_dates (upserts [example_session ''2024-01-01'' ''d1'' (Num (Fin 40))]
       [example_session ''2024-01-01'' ''d2'' (Str []),
        example_session ''2024-01-08'' ''d1'' (Num (Fin 42))])
   \<and> unique_date_and_day [example_session ''2024-01-01'' ''d1'' (Num (Fin 40))]
   \<and> unique_date_and_day (upserts_App [example_session ''2024-01-01'' ''d1'' (Num (Fin 40))]
       [example_session ''2024-01-01'' ''d2'' (Str []),
        example_session ''2024-01-08'' ''d1'' (Num (Fin 42))])"
proof -
  have h: "unique_dates [example_session ''2024-01-01'' ''d1'' (Num (Fin 40))]"
    "unique_date_and_day [example_session ''2024-01-01'' ''d1'' (Num (Fin 40))]"
    by (simp_all add: unique_dates_def unique_date_and_day_def)
  from upserts_unique_dates
    [of "[example_session ''2024-01-01'' ''d1'' (Num (Fin 40))]"
        "[example_session ''2024-01-01'' ''d2'' (Str []),
          example_session ''2024-01-08'' ''d1'' (Num (Fin 42))]"] h
  show ?thesis by simp
qed

text \<open>
  Claim C2 as stated fails for the upsert of \<^verbatim>\<open>src/App.jsx\<close>: the store holds one
  session, and after the upsert of a session for the same date under another day key it
  holds two sessions with that date.
\<close>

theorem upsert_App_breaks_unique_dates:
  "unique_dates [example_session ''2024-01-01'' ''d1'' (Num (Fin 40))]
   \<and> \<not> unique_dates
       (upserts_App [example_session ''2024-01-01'' ''d1'' (Num (Fin 40))]
          [example_session ''2024-01-01'' ''d2'' (Str [])])"
  using upsert_App_append
    [of "example_session ''2024-01-01'' ''d2'' (Str [])"
        "[example_session ''2024-01-01'' ''d1'' (Num (Fin 40))]"]
  by (simp add: example_session_def unique_dates_def upserts_App_def)

section \<open>Analytics series\<close>







lemma chartWeight_null_iff:
  "chartWeight w = None \<longleftrightarrow> (w = Str [] \<or> w = Null \<or> w = Undefined)"
  by (simp add: chartWeight_def)

lemma chartWeight_numeric:
  "\<not> (w = Str [] \<or> w = Null \<or> w = Undefined) \<Longrightarrow> chartWeight w = Some (Number w)"
  by (simp add: chartWeight_def)


lemma chartData_example:
  "chartData example_store ''shoulder_press'' =
     [\<lparr>p_date = ''2024-01-01'', p_weight = Some (Fin 40), p_dayKey = ''d1''\<rparr>,
      \<lparr>p_date = ''2024-01-05'', p_weight = None, p_dayKey = ''d1''\<rparr>,
      \<lparr>p_date = ''2024-01-08'', p_weight = Some (Fin 42), p_dayKey = ''d1''\<rparr>]"
  by (simp add: chartData_def example_store_def example_session_def recordsExercise_def sortBy_def
      chartPoint_def chartWeight_def entryWeight_def byDate_def Number_def less_char_def)


section \<open>Summary of a series\<close>















section \<open>Normalization of numeric fields and saveSession\<close>




lemma cleanField_eq: "cleanField v = clampNumber v"
  by (simp add: cleanField_def clampNumber_def)

lemma clampNumber_emptyOrNumber: "emptyOrNumber (clampNumber v)"
  by (simp add: clampNumber_def emptyOrNumber_def Let_def)

lemma payload_in_upsertSession: "p \<in> set (upsertSession d k p prev)"
proof -
  have *: "0 \<le> findIndex P xs \<Longrightarrow> nat (findIndex P xs) < length xs" for P and xs :: "session list"
    by (cases rule: findIndex_cases [of P xs]) (simp_all add: first_at_def)
  show ?thesis
    by (auto simp: upsertSession_def Let_def set_update_memI *)
qed

lemma payload_in_upsertSession_App: "p \<in> set (upsertSession_App d k p prev)"
proof -
  have *: "0 \<le> findIndex P xs \<Longrightarrow> nat (findIndex P xs) < length xs" for P and xs :: "session list"
    by (cases rule: findIndex_cases [of P xs]) (simp_all add: first_at_def)
  show ?thesis
    by (auto simp: upsertSession_App_def Let_def set_update_memI *)
qed

lemma saveSession_App_known_day:
  "map_of PROGRAM_days (formDayKey st) = Some day \<Longrightarrow>
   saveSession_App rnd now st =
     Some (st\<lparr>sessions := upsertSession_App (formDate st) (formDayKey st)
                            (payload rnd now st day) (sessions st),
              formNotes := [], tab := ''progress''\<rparr>)"
  by (simp add: saveSession_App_def)

lemma saveSession_known_day:
  "map_of PROGRAM_days (formDayKey st) = Some day \<Longrightarrow>
   saveSession rnd now st =
     Some (st\<lparr>sessions := upsertSession (formDate st) (formDayKey st) (payload rnd now st day)
                            (sessions st),
              formNotes := [], tab := ''progress''\<rparr>)"
  by (simp add: saveSession_def)


text \<open>
  Readings of \<^verbatim>\<open>Number\<close>: a string of white space is parseable and reads as 0, and
  \<^verbatim>\<open>Infinity\<close> is a number.
\<close>

lemma clampNumber_examples:
  "clampNumber (Str ''22.5'') = Num (Fin (45 / 2))"
  "clampNumber (Str ''abc'') = Str []"
  "clampNumber (Str ''Infinity'') = Num PInf"
  "clampNumber (Str '' '') = Num (Fin 0)"
  by (simp_all add: clampNumber_def Number_def StringToNumber_def trim_def isWhiteSpace_def
      StrNumericLiteral_def StrUnsignedDecimalLiteral_def isDigitOf_def digitValue_def
      digitsValue_def exponentPart_def scale10_def)

lemma saveSession_example:
  "saveSession ''9f3a'' ''2024-01-01T10:00:00.000Z'' example_form =
     Some \<lparr>tab = ''progress'',
           sessions =
             [\<lparr>session_id = ''2024-01-01-d4-9f3a'', date = ''2024-01-01'', dayKey = ''d4'',
               dayName = ''Day 4 - Upper Accessories + Conditioning'',
               cardio = \<lparr>cardio_type = ''Stairs or incline walk'', minutes = Str []\<rparr>,
               notes_text = ''arms'',
               entries =
                 [(''arnold_press'', \<lparr>weight = Str [], reps = Str [], sets = Str []\<rparr>),
                  (''rear_delt_fly'', \<lparr>weight = Str [], reps = Str [], sets = Str []\<rparr>),
                  (''biceps_curl'', \<lparr>weight = Num (Fin (25 / 2)), reps = Str [], sets = Str []\<rparr>),
                  (''hammer_curl'', \<lparr>weight = Str [], reps = Str [], sets = Str []\<rparr>)],
               createdAt = ''2024-01-01T10:00:00.000Z''\<rparr>],
           formDate = ''2024-01-01'', formDayKey = ''d4'', formNotes = [],
           cardioMinutes = Str ''x'', formEntries = formEntries example_form\<rparr>"
  by (simp add: saveSession_def example_form_def PROGRAM_days_def payload_def cleanEntries_def
      cleanEntry_def cleanField_def emptyEntry_def upsertSession_def findIndex_def
      clampNumber_def Number_def StringToNumber_def trim_def isWhiteSpace_def
      StrNumericLiteral_def StrUnsignedDecimalLiteral_def isDigitOf_def digitValue_def
      digitsValue_def exponentPart_def scale10_def)


lemma keys_cleanEntries_fold:
  "fst ` set (foldl (\<lambda>acc ex. AList.update (ex_id ex) (f ex) acc) acc0 exs)
     = fst ` set acc0 \<union> ex_id ` set exs"
  by (induction exs arbitrary: acc0) (auto simp: AList.dom_update)

lemma distinct_cleanEntries_fold:
  "distinct (map fst acc0) \<Longrightarrow>
   distinct (map fst (foldl (\<lambda>acc ex. AList.update (ex_id ex) (f ex) acc) acc0 exs))"
  by (induction exs arbitrary: acc0) (auto simp: AList.distinct_update)

lemma set_update_cases:
  "x \<in> set (AList.update k v al) \<Longrightarrow> x = (k, v) \<or> x \<in> set al"
  by (induction al) (auto split: if_splits)

lemma values_cleanEntries_fold:
  "(\<forall>ke\<in>set acc0. P (snd ke)) \<Longrightarrow> (\<forall>ex\<in>set exs. P (f ex)) \<Longrightarrow>
   \<forall>ke\<in>set (foldl (\<lambda>acc ex. AList.update (ex_id ex) (f ex) acc) acc0 exs). P (snd ke)"
proof (induction exs arbitrary: acc0)
  case Nil
  then show ?case by simp
next
  case (Cons ex exs)
  have "\<forall>ke\<in>set (AList.update (ex_id ex) (f ex) acc0). P (snd ke)"
    using Cons.prems by (auto dest!: set_update_cases)
  with Cons show ?case by simp
qed

lemma cleanEntry_emptyOrNumber:
  "emptyOrNumber (weight (cleanEntry e)) \<and> emptyOrNumber (sets (cleanEntry e))
   \<and> emptyOrNumber (reps (cleanEntry e))"
  by (simp add: cleanEntry_def cleanField_eq clampNumber_emptyOrNumber)

text \<open>
  Claim C10. For a form whose day key names a day of the program, \<^verbatim>\<open>saveSession\<close>
  (of either version) stores a session whose entries have exactly the exercise ids of that day as keys,
  each once, whatever other keys the form's entries hold; and every stored weight, sets
  and reps value is the empty string or a number other than \<open>NaN\<close>.
\<close>

theorem saveSession_entries:
  assumes "map_of PROGRAM_days (formDayKey st) = Some day"
  shows "(\<exists>st'. saveSession rnd now st = Some st'
             \<and> payload rnd now st day \<in> set (sessions st'))
      \<and> (\<exists>st'. saveSession_App rnd now st = Some st'
             \<and> payload rnd now st day \<in> set (sessions st'))
      \<and> fst ` set (entries (payload rnd now st day)) = ex_id ` set (exercises day)
      \<and> distinct (map fst (entries (payload rnd now st day)))
      \<and> (\<forall>ke\<in>set (entries (payload rnd now st day)).
            emptyOrNumber (weight (snd ke)) \<and> emptyOrNumber (sets (snd ke))
            \<and> emptyOrNumber (reps (snd ke)))"
proof -
  have e: "entries (payload rnd now st day) = cleanEntries (formEntries st) (exercises day)"
    by (simp add: payload_def)
  have "fst ` set (cleanEntries (formEntries st) (exercises day)) = ex_id ` set (exercises day)"
    unfolding cleanEntries_def by (simp add: keys_cleanEntries_fold)
  moreover have "distinct (map fst (cleanEntries (formEntries st) (exercises day)))"
    unfolding cleanEntries_def by (rule distinct_cleanEntries_fold) simp
  moreover have "\<forall>ke\<in>set (cleanEntries (formEntries st) (exercises day)).
            emptyOrNumber (weight (snd ke)) \<and> emptyOrNumber (sets (snd ke))
            \<and> emptyOrNumber (reps (snd ke))"
    unfolding cleanEntries_def
    by (rule values_cleanEntries_fold) (simp_all add: cleanEntry_emptyOrNumber)
  ultimately show ?thesis
    using assms
    by (simp add: saveSession_known_day saveSession_App_known_day payload_in_upsertSession
        payload_in_upsertSession_App e)
qed

theorem saveSession_entries_witness:
  "map_of PROGRAM_days (formDayKey example_form) \<noteq> None
   \<and> (\<exists>st' day. saveSession ''9f3a'' ''2024-01-01T10:00:00.000Z'' example_form = Some st'
         \<and> payload ''9f3a'' ''2024-01-01T10:00:00.000Z'' example_form day \<in> set (sessions st')
         \<and> fst ` set (entries (payload ''9f3a'' ''2024-01-01T10:00:00.000Z'' example_form day))
             = {''arnold_press'', ''rear_delt_fly'', ''biceps_curl'', ''hammer_curl''})"
proof -
  obtain day where d: "map_of PROGRAM_days (formDayKey example_form) = Some day"
    and e: "ex_id ` set (exercises day)
              = {''arnold_press'', ''rear_delt_fly'', ''biceps_curl'', ''hammer_curl''}"
    by (simp add: example_form_def PROGRAM_days_def)
  from saveSession_entries [OF d, of "''9f3a''" "''2024-01-01T10:00:00.000Z''"] e d
  show ?thesis by auto
qed

section \<open>Import and export\<close>

lemma getProp_array_truthy: "getProp v k = VArr xs \<Longrightarrow> truthy v"
  by (cases v) (simp_all add: getProp_def truthy_def)

text \<open>
  Claim C7. If the text is not JSON, or is a document whose value has no array under
  \<^verbatim>\<open>sessions\<close>, the import shows a message that starts with \<^verbatim>\<open>Import failed\<close> and
  leaves the store as it was; otherwise the store becomes that array, whatever it held
  before.
\<close>

theorem importDataFromFile_contract:
  "(text = Malformed e \<longrightarrow>
      importDataFromFile store text = (''Import failed: '' @ e, store))
   \<and> (text = Document d \<and> (\<forall>xs. getProp (JSON_value d) ''sessions'' \<noteq> VArr xs) \<longrightarrow>
      importDataFromFile store text = (''Import failed: expected { sessions: [...] }'', store))
   \<and> (text = Document d \<and> getProp (JSON_value d) ''sessions'' = VArr xs \<longrightarrow>
      importDataFromFile store text = (''Import complete.'', xs))"
proof (intro conjI impI)
  assume "text = Malformed e"
  then show "importDataFromFile store text = (''Import failed: '' @ e, store)"
    by (simp add: importDataFromFile_def safeParseJSON_def)
next
  assume a: "text = Document d \<and> (\<forall>xs. getProp (JSON_value d) ''sessions'' \<noteq> VArr xs)"
  then show "importDataFromFile store text
      = (''Import failed: expected { sessions: [...] }'', store)"
    by (cases "getProp (JSON_value d) ''sessions''")
       (simp_all add: importDataFromFile_def safeParseJSON_def)
next
  assume a: "text = Document d \<and> getProp (JSON_value d) ''sessions'' = VArr xs"
  then have "truthy (JSON_value d)" by (auto dest: getProp_array_truthy)
  with a show "importDataFromFile store text = (''Import complete.'', xs)"
    by (simp add: importDataFromFile_def safeParseJSON_def)
qed

theorem importDataFromFile_contract_witness:
  "importDataFromFile finite_store (Malformed ''SyntaxError: Unexpected token'')
     = (''Import failed: SyntaxError: Unexpected token'', finite_store)
   \<and> getProp (JSON_value (JArray [])) ''sessions'' = VUndefined
   \<and> importDataFromFile finite_store (Document (JArray []))
     = (''Import failed: expected { sessions: [...] }'', finite_store)
   \<and> getProp (JSON_value (JObject [(''sessions'', JArray [JNull])])) ''sessions'' = VArr [VNull]
   \<and> importDataFromFile finite_store (Document (JObject [(''sessions'', JArray [JNull])]))
     = (''Import complete.'', [VNull])"
proof -
  have a: "getProp (JSON_value (JArray [])) ''sessions'' = VUndefined"
    by (simp add: getProp_def)
  have b: "getProp (JSON_value (JObject [(''sessions'', JArray [JNull])])) ''sessions'' = VArr [VNull]"
    by (simp add: getProp_def)
  from importDataFromFile_contract
    [of "Malformed ''SyntaxError: Unexpected token''" "''SyntaxError: Unexpected token''" finite_store]
  have "importDataFromFile finite_store (Malformed ''SyntaxError: Unexpected token'')
     = (''Import failed: SyntaxError: Unexpected token'', finite_store)"
    by simp
  moreover from importDataFromFile_contract [of "Document (JArray [])" _ finite_store "JArray []"] a
  have "importDataFromFile finite_store (Document (JArray []))
     = (''Import failed: expected { sessions: [...] }'', finite_store)"
    by simp
  moreover from importDataFromFile_contract
    [of "Document (JObject [(''sessions'', JArray [JNull])])" _ finite_store
        "JObject [(''sessions'', JArray [JNull])]" "[VNull]"] b
  have "importDataFromFile finite_store (Document (JObject [(''sessions'', JArray [JNull])]))
     = (''Import complete.'', [VNull])"
    by simp
  ultimately show ?thesis using a b by simp
qed

lemma update_fresh: "k \<notin> fst ` set al \<Longrightarrow> AList.update k v al = al @ [(k, v)]"
  by (induction al) auto

lemma foldl_update_distinct:
  "distinct (map fst (acc @ kvs)) \<Longrightarrow>
   foldl (\<lambda>acc kv. AList.update (fst kv) (snd kv) acc) acc kvs = acc @ kvs"
proof (induction kvs arbitrary: acc)
  case Nil
  then show ?case by simp
next
  case (Cons kv kvs)
  from Cons.prems have "fst kv \<notin> fst ` set acc" by auto
  then have "AList.update (fst kv) (snd kv) acc = acc @ [kv]" by (simp add: update_fresh)
  moreover from Cons.prems have "distinct (map fst ((acc @ [kv]) @ kvs))" by simp
  ultimately show ?case using Cons.IH [of "acc @ [kv]"] by simp
qed

lemma json_roundtrip:
  "json_safe v \<Longrightarrow> \<exists>j. SerializeJSONProperty v = Some j \<and> JSON_value j = v"
proof (induction v)
  case (VNum n)
  then show ?case by (cases n) simp_all
next
  case (VArr xs)
  have "map (\<lambda>x. JSON_value (case SerializeJSONProperty x of None \<Rightarrow> JNull | Some j \<Rightarrow> j)) xs = xs"
  proof (rule map_idI)
    fix x assume x: "x \<in> set xs"
    with VArr.prems have "json_safe x" by (simp add: list_all_iff)
    from VArr.IH [OF x this] obtain j where "SerializeJSONProperty x = Some j" "JSON_value j = x"
      by blast
    then show "JSON_value (case SerializeJSONProperty x of None \<Rightarrow> JNull | Some j \<Rightarrow> j) = x"
      by simp
  qed
  then show ?case by (simp add: comp_def)
next
  case (VObj kvs)
  have step: "map (\<lambda>kv. (fst kv, JSON_value (snd kv)))
          (concat (map (\<lambda>kv. case SerializeJSONProperty (snd kv) of None \<Rightarrow> []
                                | Some j \<Rightarrow> [(fst kv, j)]) kvs)) = kvs"
    using VObj
  proof (induction kvs)
    case Nil
    then show ?case by simp
  next
    case (Cons kv kvs)
    from Cons.prems(2) have s: "json_safe (snd kv)" by simp
    have "snd kv \<in> Basic_BNFs.snds kv" by (cases kv) simp
    with Cons.prems(1) [of kv "snd kv"] s
    obtain j where j: "SerializeJSONProperty (snd kv) = Some j" "JSON_value j = snd kv"
      by auto
    have "map (\<lambda>kv. (fst kv, JSON_value (snd kv)))
          (concat (map (\<lambda>kv. case SerializeJSONProperty (snd kv) of None \<Rightarrow> []
                                | Some j \<Rightarrow> [(fst kv, j)]) kvs)) = kvs"
      using Cons.prems by (intro Cons.IH) auto
    with j show ?case by simp
  qed
  from VObj.prems have "distinct (map fst ([] @ kvs))" by simp
  from foldl_update_distinct [OF this] step show ?case by simp
qed simp_all

lemma exportText_roundtrip:
  assumes "list_all json_safe store"
  shows "\<exists>d. exportText store = Document d
           \<and> JSON_value d = VObj [(''sessions'', VArr store)]"
proof -
  from assms have "json_safe (VObj [(''sessions'', VArr store)])" by simp
  from json_roundtrip [OF this] show ?thesis by (auto simp: exportText_def)
qed

text \<open>
  Claim C9, as amended. For every store that JSON represents exactly (every number
  finite, no \<^verbatim>\<open>undefined\<close> element or property value), importing the exported text
  yields the store again, whatever the store held at the time of the import.
\<close>

theorem export_import_roundtrip:
  "list_all json_safe store \<Longrightarrow>
   importDataFromFile other (snd (exportData today store)) = (''Import complete.'', store)"
proof -
  assume "list_all json_safe store"
  from exportText_roundtrip [OF this] obtain d
    where d: "exportText store = Document d" "JSON_value d = VObj [(''sessions'', VArr store)]"
    by blast
  then show ?thesis
    by (simp add: exportData_def importDataFromFile_def safeParseJSON_def truthy_def getProp_def)
qed

lemma json_safe_ownProp:
  "finite_val v \<Longrightarrow> list_all (\<lambda>kv. json_safe (snd kv)) (ownProp k v)"
  by (cases v) (auto simp: ownProp_def jv_of_val_def finite_val_def split: jsnum.splits)

lemma keys_ownProp: "map fst (ownProp k v) = (if v = Undefined then [] else [k])"
  by (simp add: ownProp_def)

lemma json_safe_entry:
  "finite_val (weight e) \<Longrightarrow> finite_val (reps e) \<Longrightarrow> finite_val (sets e) \<Longrightarrow>
   json_safe (jv_of_entry e)"
  by (simp add: jv_of_entry_def json_safe_ownProp keys_ownProp)

lemma json_safe_session:
  assumes "finite_session s"
  shows "json_safe (jv_of_session s)"
proof -
  from assms have m: "finite_val (minutes (cardio s))"
    and dk: "distinct (map fst (entries s))"
    and fe: "\<forall>ke\<in>set (entries s). finite_val (weight (snd ke)) \<and> finite_val (reps (snd ke))
                \<and> finite_val (sets (snd ke))"
    by (simp_all add: finite_session_def list_all_iff)
  have c: "json_safe (VObj ((''type'', VStr (cardio_type (cardio s)))
                            # ownProp ''minutes'' (minutes (cardio s))))"
    using json_safe_ownProp [OF m, of "''minutes''"] by (simp add: keys_ownProp)
  have e: "json_safe (VObj (map (\<lambda>ke. (fst ke, jv_of_entry (snd ke))) (entries s)))"
    using dk fe by (simp add: list_all_iff comp_def json_safe_entry)
  show ?thesis
    unfolding jv_of_session_def using c e by simp
qed

text \<open>In terms of session records: the round trip returns every store of sessions whose
  numeric fields are finite.\<close>

lemma roundtrip_sessions:
  assumes "list_all finite_session store"
  shows "importDataFromFile other (snd (exportData today (map jv_of_session store)))
           = (''Import complete.'', map jv_of_session store)"
proof -
  from assms have "list_all json_safe (map jv_of_session store)"
    by (simp add: list_all_iff json_safe_session)
  from exportText_roundtrip [OF this] obtain d
    where "exportText (map jv_of_session store) = Document d"
      and "JSON_value d = VObj [(''sessions'', VArr (map jv_of_session store))]"
    by blast
  then show ?thesis
    by (simp add: exportData_def importDataFromFile_def safeParseJSON_def truthy_def getProp_def)
qed

lemma finite_store_safe: "list_all json_safe finite_store"
  by (simp add: finite_store_def json_safe_session finite_session_def finite_val_def
      example_session_def)

theorem export_import_roundtrip_witness:
  "list_all json_safe finite_store
   \<and> importDataFromFile [] (snd (exportData ''2024-01-09'' finite_store))
       = (''Import complete.'', finite_store)"
  using export_import_roundtrip [OF finite_store_safe, of "[]" "''2024-01-09''"] finite_store_safe
  by simp

text \<open>
  Claim C9 as stated fails on a store that holds an infinite number: the export writes
  \<^verbatim>\<open>null\<close> for it, and the import reads \<^verbatim>\<open>null\<close> back. \<^verbatim>\<open>saveSession\<close> stores
  such a number when the weight typed into the form is \<^verbatim>\<open>Infinity\<close>.
\<close>

theorem export_import_infinity:
  "snd (importDataFromFile [] (snd (exportData ''2024-01-09'' infinity_store)))
   \<noteq> infinity_store"
  by (simp add: infinity_store_def exportData_def exportText_def importDataFromFile_def
      safeParseJSON_def truthy_def getProp_def jv_of_session_def jv_of_entry_def ownProp_def
      jv_of_val_def example_session_def)

lemma cleanEntry_Infinity:
  "cleanEntry \<lparr>weight = Str ''Infinity'', reps = Str [], sets = Str []\<rparr>
     = \<lparr>weight = Num PInf, reps = Str [], sets = Str []\<rparr>"
  by (simp add: cleanEntry_def cleanField_def clampNumber_examples)

text \<open>
  Every value that \<^verbatim>\<open>JSON.parse\<close> builds is represented exactly by JSON, so a store
  that an import installed passes the round trip.
\<close>

lemma distinct_foldl_update:
  "distinct (map fst acc) \<Longrightarrow>
   distinct (map fst (foldl (\<lambda>acc kv. AList.update (fst kv) (snd kv) acc) acc kvs))"
  by (induction kvs arbitrary: acc) (auto simp: AList.distinct_update)

lemma values_foldl_update:
  "(\<forall>kv\<in>set acc. P (snd kv)) \<Longrightarrow> (\<forall>kv\<in>set kvs. P (snd kv)) \<Longrightarrow>
   \<forall>kv\<in>set (foldl (\<lambda>acc kv. AList.update (fst kv) (snd kv) acc) acc kvs). P (snd kv)"
proof (induction kvs arbitrary: acc)
  case Nil
  then show ?case by simp
next
  case (Cons kv kvs)
  have "\<forall>x\<in>set (AList.update (fst kv) (snd kv) acc). P (snd x)"
    using Cons.prems by (auto dest!: set_update_cases)
  with Cons show ?case by simp
qed

lemma JSON_value_safe: "json_safe (JSON_value d)"
proof (induction d)
  case (JArray xs)
  then show ?case by (simp add: list_all_iff)
next
  case (JObject kvs)
  have "\<forall>kv\<in>set (map (\<lambda>kv. (fst kv, JSON_value (snd kv))) kvs). json_safe (snd kv)"
  proof
    fix kv assume "kv \<in> set (map (\<lambda>kv. (fst kv, JSON_value (snd kv))) kvs)"
    then obtain kj where kj: "kj \<in> set kvs" "kv = (fst kj, JSON_value (snd kj))" by auto
    have "snd kj \<in> Basic_BNFs.snds kj" by (cases kj) simp
    with JObject kj(1) have "json_safe (JSON_value (snd kj))" by blast
    with kj(2) show "json_safe (snd kv)" by simp
  qed
  from values_foldl_update [of "[]" json_safe, OF _ this] distinct_foldl_update [of "[]"]
  show ?case by (simp add: list_all_iff)
qed simp_all

lemma imported_store_safe:
  "importDataFromFile store (Document d) = (''Import complete.'', store') \<Longrightarrow>
   list_all json_safe store'"
proof -
  assume a: "importDataFromFile store (Document d) = (''Import complete.'', store')"
  then have "getProp (JSON_value d) ''sessions'' = VArr store'"
    by (auto simp: importDataFromFile_def safeParseJSON_def split: if_splits jv.splits)
  moreover have "json_safe (JSON_value d)" by (rule JSON_value_safe)
  ultimately show ?thesis
    by (cases "JSON_value d")
       (auto simp: getProp_def list_all_iff split: option.splits dest!: map_of_SomeD)
qed

section \<open>Day change defaults\<close>

lemma seed_reps_sets_empty: "reps (seedEntry store ex) = Str [] \<and> sets (seedEntry store ex) = Str []"
  by (simp add: seedEntry_def)

lemma find_cong_on: "(\<And>x. x \<in> set xs \<Longrightarrow> P x = Q x) \<Longrightarrow> List.find P xs = List.find Q xs"
  by (induction xs) auto

lemma seedEntry_without_null:
  assumes "list_all (noNullWeight (ex_id ex)) store"
  shows "weight (seedEntry store ex) =
     (case List.find (nonEmptyWeight (ex_id ex)) (rev store) of
        Some s \<Rightarrow> entryWeight s (ex_id ex)
      | None \<Rightarrow> nullish (start ex) (Str []))"
proof -
  have eq: "hasLoggedWeight (ex_id ex) s = nonEmptyWeight (ex_id ex) s" if "s \<in> set store" for s
    using assms that
    by (auto simp: hasLoggedWeight_def nonEmptyWeight_def noNullWeight_def list_all_iff
        split: option.splits)
  have f: "lastLogged store (ex_id ex) = List.find (nonEmptyWeight (ex_id ex)) (rev store)"
    unfolding lastLogged_def by (rule find_cong_on) (simp add: eq)
  show ?thesis
  proof (cases "List.find (nonEmptyWeight (ex_id ex)) (rev store)")
    case None
    with f show ?thesis by (simp add: seedEntry_def defaultWeight_def)
  next
    case (Some s)
    then have "nonEmptyWeight (ex_id ex) s" by (auto simp: find_Some_iff)
    then have "nullish (entryWeight s (ex_id ex)) (Str []) = entryWeight s (ex_id ex)"
      by (auto simp: nonEmptyWeight_def entryWeight_def nullish_def split: option.splits)
    with f Some show ?thesis by (simp add: seedEntry_def defaultWeight_def)
  qed
qed

lemma dayChangeDefaults_empty_store_d1:
  "map_option (\<lambda>r. map_of (snd r) ''shoulder_press'') (dayChangeDefaults [] ''d1'')
     = Some (Some \<lparr>weight = Num (Fin 35), reps = Str [], sets = Str []\<rparr>)"
  by (simp add: dayChangeDefaults_def PROGRAM_days_def nextEntries_def seedEntry_def
      defaultWeight_def lastLogged_def nullish_def)

lemma map_of_foldl_update_other:
  "k \<notin> ex_id ` set exs \<Longrightarrow>
   map_of (foldl (\<lambda>acc ex. AList.update (ex_id ex) (f ex) acc) acc exs) k = map_of acc k"
  by (induction exs arbitrary: acc) (simp_all add: AList.update_conv')

lemma map_of_foldl_update_distinct:
  "distinct (map ex_id exs) \<Longrightarrow> ex \<in> set exs \<Longrightarrow>
   map_of (foldl (\<lambda>acc ex. AList.update (ex_id ex) (f ex) acc) acc exs) (ex_id ex) = Some (f ex)"
proof (induction exs arbitrary: acc)
  case Nil
  then show ?case by simp
next
  case (Cons a exs)
  show ?case
  proof (cases "ex = a")
    case True
    from Cons.prems(1) have "ex_id a \<notin> ex_id ` set exs" by auto
    from map_of_foldl_update_other [OF this, of f "AList.update (ex_id a) (f a) acc"] True
    show ?thesis by (simp add: AList.update_conv')
  next
    case False
    with Cons.prems have "distinct (map ex_id exs)" "ex \<in> set exs" by auto
    from Cons.IH [OF this] show ?thesis by simp
  qed
qed

lemma nextEntries_lookup:
  "distinct (map ex_id exs) \<Longrightarrow> ex \<in> set exs \<Longrightarrow>
   map_of (nextEntries store exs) (ex_id ex) = Some (seedEntry store ex)"
  unfolding nextEntries_def by (rule map_of_foldl_update_distinct)

lemma PROGRAM_distinct_ids:
  "map_of PROGRAM_days k = Some day \<Longrightarrow> distinct (map ex_id (exercises day))"
  by (auto simp: PROGRAM_days_def split: if_splits)

lemma find_first_at: "first_at P xs i \<Longrightarrow> List.find P xs = Some (xs ! i)"
proof (induction xs arbitrary: i)
  case Nil
  then show ?case by (simp add: first_at_def)
next
  case (Cons x xs)
  show ?case
  proof (cases i)
    case 0
    with Cons.prems show ?thesis by (simp add: first_at_def)
  next
    case (Suc j)
    with Cons.prems have "\<not> P x" "first_at P xs j" by (simp_all add: first_at_def)
    with Cons.IH [of j] Suc show ?thesis by simp
  qed
qed

lemma find_none: "list_all (\<lambda>x. \<not> P x) xs \<Longrightarrow> List.find P xs = None"
  by (induction xs) auto

text \<open>In a store whose array is in the order of its dates, the last session of the
  array with a given property has the latest date among the sessions with it.\<close>

lemma last_logged_is_most_recent:
  assumes srt: "sorted (map date store)"
    and fa: "first_at P (rev store) i"
    and s: "s \<in> set store" "P s"
  shows "date s \<le> date (rev store ! i)"
proof -
  let ?n = "length store"
  from fa have i: "i < ?n" and none: "list_all (\<lambda>x. \<not> P x) (take i (rev store))"
    by (simp_all add: first_at_def)
  from s(1) obtain j where j: "j < ?n" "store ! j = s" by (auto simp: in_set_conv_nth)
  have r: "rev store ! i = store ! (?n - 1 - i)" using i by (simp add: rev_nth)
  have "j \<le> ?n - 1 - i"
  proof (rule ccontr)
    assume "\<not> j \<le> ?n - 1 - i"
    with j(1) have k: "?n - 1 - j < i" by arith
    with i have "rev store ! (?n - 1 - j) \<in> set (take i (rev store))"
      by (simp add: in_set_conv_nth) (metis length_rev nth_take order_less_trans length_take min.absorb2 less_imp_le_nat)
    moreover have "rev store ! (?n - 1 - j) = s" using j by (simp add: rev_nth)
    ultimately show False using none s(2) by (simp add: list_all_iff)
  qed
  moreover have "?n - 1 - i < ?n" using i by arith
  ultimately have "map date store ! j \<le> map date store ! (?n - 1 - i)"
    using srt by (simp add: sorted_iff_nth_mono del: nth_map)
  with j i r show ?thesis by simp
qed

text \<open>
  What the seeding does. Take a store in which no recorded weight of the exercise is
  \<^verbatim>\<open>null\<close> or \<^verbatim>\<open>undefined\<close>, and a day of the catalog. The entry seeded for an
  exercise of the day has empty sets and reps. Its weight is that of the last session of
  the store array that records a non-empty weight for the exercise (the first one of the
  reversed array); if no session does, it is the exercise's starting value, or the empty
  string when the exercise has none. On a store whose array is in the order of its dates
  this is the most recent weight (\<open>last_logged_is_most_recent\<close>); on the empty store, day 1 seeds 35 for
  \<^verbatim>\<open>shoulder_press\<close>.
\<close>

lemma dayChangeDefaults_seeding:
  assumes day: "map_of PROGRAM_days k = Some day"
    and ex: "ex \<in> set (exercises day)"
    and nn: "list_all (noNullWeight (ex_id ex)) store"
  shows "\<exists>mins seeded e.
      dayChangeDefaults store k = Some (mins, seeded)
      \<and> map_of seeded (ex_id ex) = Some e
      \<and> reps e = Str [] \<and> sets e = Str []
      \<and> (\<forall>i. first_at (nonEmptyWeight (ex_id ex)) (rev store) i \<longrightarrow>
             weight e = entryWeight (rev store ! i) (ex_id ex))
      \<and> (list_all (\<lambda>s. \<not> nonEmptyWeight (ex_id ex) s) store \<longrightarrow>
             weight e = (if start ex = Null \<or> start ex = Undefined then Str [] else start ex))"
proof -
  let ?e = "seedEntry store ex"
  have d: "dayChangeDefaults store k
             = Some (Num (Fin (minutesDefault day)), nextEntries store (exercises day))"
    using day by (simp add: dayChangeDefaults_def)
  have l: "map_of (nextEntries store (exercises day)) (ex_id ex) = Some ?e"
    using PROGRAM_distinct_ids [OF day] ex by (rule nextEntries_lookup)
  have w: "weight ?e =
     (case List.find (nonEmptyWeight (ex_id ex)) (rev store) of
        Some s \<Rightarrow> entryWeight s (ex_id ex)
      | None \<Rightarrow> nullish (start ex) (Str []))"
    using nn by (rule seedEntry_without_null)
  have f: "weight ?e = entryWeight (rev store ! i) (ex_id ex)"
    if "first_at (nonEmptyWeight (ex_id ex)) (rev store) i" for i
    using find_first_at [OF that] w by simp
  have n: "weight ?e = (if start ex = Null \<or> start ex = Undefined then Str [] else start ex)"
    if "list_all (\<lambda>s. \<not> nonEmptyWeight (ex_id ex) s) store"
  proof -
    from that have "list_all (\<lambda>s. \<not> nonEmptyWeight (ex_id ex) s) (rev store)"
      by (simp add: list_all_iff)
    from find_none [OF this] w show ?thesis by (simp add: nullish_def)
  qed
  from d l f n seed_reps_sets_empty [of store ex] show ?thesis by blast
qed

lemma dayChangeDefaults_seeding_examples:
  "(\<exists>mins seeded.
      dayChangeDefaults [] ''d1'' = Some (mins, seeded)
      \<and> map_of seeded ''shoulder_press''
          = Some \<lparr>weight = Num (Fin 35), reps = Str [], sets = Str []\<rparr>)
   \<and> list_all (noNullWeight ''shoulder_press'') example_store
   \<and> first_at (nonEmptyWeight ''shoulder_press'') (rev example_store) 0
   \<and> (\<exists>mins seeded.
      dayChangeDefaults example_store ''d1'' = Some (mins, seeded)
      \<and> map_of seeded ''shoulder_press''
          = Some \<lparr>weight = Num (Fin 40), reps = Str [], sets = Str []\<rparr>)"
proof -
  define ex where "ex = \<lparr>ex_id = ''shoulder_press'', ex_name = ''Shoulder Press'',
                        ex_unit = ''kg'', start = Num (Fin 35)\<rparr>"
  obtain day where day: "map_of PROGRAM_days ''d1'' = Some day" and ex: "ex \<in> set (exercises day)"
    by (simp add: PROGRAM_days_def ex_def)
  have id: "ex_id ex = ''shoulder_press''" "start ex = Num (Fin 35)" by (simp_all add: ex_def)
  have nn: "list_all (noNullWeight (ex_id ex)) example_store"
    by (simp add: id example_store_def example_session_def noNullWeight_def)
  have fa: "first_at (nonEmptyWeight (ex_id ex)) (rev example_store) 0"
    by (simp add: id example_store_def example_session_def nonEmptyWeight_def first_at_def)
  have w: "entryWeight (rev example_store ! 0) (ex_id ex) = Num (Fin 40)"
    by (simp add: id example_store_def example_session_def entryWeight_def)
  have a: "\<exists>mins seeded.
      dayChangeDefaults [] ''d1'' = Some (mins, seeded)
      \<and> map_of seeded ''shoulder_press''
          = Some \<lparr>weight = Num (Fin 35), reps = Str [], sets = Str []\<rparr>"
    using dayChangeDefaults_seeding [OF day ex, of "[]"] by (auto simp: id)
  have b: "\<exists>mins seeded.
      dayChangeDefaults example_store ''d1'' = Some (mins, seeded)
      \<and> map_of seeded ''shoulder_press''
          = Some \<lparr>weight = Num (Fin 40), reps = Str [], sets = Str []\<rparr>"
    using dayChangeDefaults_seeding [OF day ex nn] fa w by (auto simp: id)
  from a b nn fa show ?thesis by (simp add: id)
qed

lemma edited_store_eq:
  "edited_store =
     [(example_session ''2024-01-08'' ''d1'' (Num (Fin 45)))\<lparr>createdAt := ''2024-01-10T09:00:00.000Z''\<rparr>,
      (example_session ''2024-01-01'' ''d1'' (Num (Fin 40)))\<lparr>createdAt := ''2024-01-09T09:00:00.000Z''\<rparr>]"
  by (simp add: edited_store_def upserts_def upsert_def upsertSession_def findIndex_def
      example_session_def)

text \<open>
  Claim C3, at two stores the code can hold. The claim seeds the weight of the most
  recent session that records one; the comment in the code says the same (\<^verbatim>\<open>Pick last
  logged value for this exercise if available; else use start value\<close>). The scan goes
  through the store array from its end, and a session sits in the array where its date
  was first saved. The first store is built by three saves: the session
  for 8 January (weight 42), the session for 1 January (weight 40), and the session for
  8 January again (weight 45), which replaces the first at its position. The session for
  8 January has the latest date and was saved last, and it records 45; the scan starts
  at the end of the array and seeds 40. In the second store the newest session records
  \<^verbatim>\<open>null\<close> as the weight (what a reload or an import reads for a weight that was
  written as \<^verbatim>\<open>null\<close>) and an older one records 40; \<^verbatim>\<open>null\<close> is not the empty
  string, so the scan stops at the newest session and seeds the empty string.
\<close>

theorem dayChangeDefaults_not_most_recent:
  "entryWeight (hd edited_store) ''shoulder_press'' = Num (Fin 45)
   \<and> list_all (\<lambda>s. date s \<le> date (hd edited_store)
                   \<and> createdAt s \<le> createdAt (hd edited_store)) edited_store
   \<and> map_option (\<lambda>r. map_of (snd r) ''shoulder_press'') (dayChangeDefaults edited_store ''d1'')
       = Some (Some \<lparr>weight = Num (Fin 40), reps = Str [], sets = Str []\<rparr>)
   \<and> List.find (nonEmptyWeight ''shoulder_press'') (rev null_weight_store)
       = Some (example_session ''2024-01-01'' ''d1'' (Num (Fin 40)))
   \<and> map_option (\<lambda>r. map_of (snd r) ''shoulder_press'')
         (dayChangeDefaults null_weight_store ''d1'')
       = Some (Some \<lparr>weight = Str [], reps = Str [], sets = Str []\<rparr>)"
proof -
  have "entryWeight (hd edited_store) ''shoulder_press'' = Num (Fin 45)"
    by (simp add: edited_store_eq example_session_def entryWeight_def)
  moreover have "list_all (\<lambda>s. date s \<le> date (hd edited_store)
                   \<and> createdAt s \<le> createdAt (hd edited_store)) edited_store"
    by (simp add: edited_store_eq example_session_def less_eq_char_def less_char_def)
  moreover have "map_option (\<lambda>r. map_of (snd r) ''shoulder_press'')
         (dayChangeDefaults edited_store ''d1'')
       = Some (Some \<lparr>weight = Num (Fin 40), reps = Str [], sets = Str []\<rparr>)"
    by (simp add: edited_store_eq dayChangeDefaults_def PROGRAM_days_def nextEntries_def
        seedEntry_def defaultWeight_def lastLogged_def nullish_def example_session_def
        hasLoggedWeight_def entryWeight_def)
  moreover have "List.find (nonEmptyWeight ''shoulder_press'') (rev null_weight_store)
       = Some (example_session ''2024-01-01'' ''d1'' (Num (Fin 40)))"
    by (simp add: null_weight_store_def nonEmptyWeight_def example_session_def)
  moreover have "map_option (\<lambda>r. map_of (snd r) ''shoulder_press'')
         (dayChangeDefaults null_weight_store ''d1'')
       = Some (Some \<lparr>weight = Str [], reps = Str [], sets = Str []\<rparr>)"
    by (simp add: dayChangeDefaults_def PROGRAM_days_def nextEntries_def seedEntry_def
        defaultWeight_def lastLogged_def nullish_def null_weight_store_def example_session_def
        hasLoggedWeight_def entryWeight_def)
  ultimately show ?thesis by simp
qed

end
